theory Spec2Isabelle
  imports Main
begin

section \<open>Data model of the Virtio-blk front end\<close>

text \<open>
  The typed resource schema comes from the API package the source imports. Only the
  fields that \<open>blk.go\<close> and its tests read or write are kept. A nested message is a
  pointer in Go. The record \<open>VirtioBlk\<close> is the content of such an object, read through
  its pointers, \<open>None\<close> standing for \<open>nil\<close>; the object itself, with its three pointers,
  is the record \<open>VirtioBlk_obj\<close> of the store below. The field \<open>Id\<close> is written \<open>Id'\<close>.
  Log output is not part of the model.
\<close>

record ObjectKey =
  Value :: string

record PciEndpoint =
  PhysicalFunction :: int
  VirtualFunction :: int

record VirtioBlk =
  Id' :: "ObjectKey option"
  PcieId :: "PciEndpoint option"
  VolumeId :: "ObjectKey option"

record VhostGetControllersResult =
  Ctrlr :: string

record ListVirtioBlksResponse =
  VirtioBlks :: "VirtioBlk list"
  NextPageToken :: string

subsection \<open>Errors\<close>

datatype codes = NotFound | InvalidArgument | Internal | Unimplemented

datatype spdk_error = ErrFailedSpdkCall | ErrUnexpectedSpdkCallResult

datatype error =
    Status codes string
  | Wrapped spdk_error
  | RpcError string
  | Panic

subsection \<open>The engine\<close>

datatype rpc_params =
    NoParams
  | VhostCreateBlkControllerParams string string
  | VhostDeleteControllerParams string
  | VhostGetControllersParams string

datatype rpc_result =
    BoolResult bool
  | ControllersResult "VhostGetControllersResult list"

type_synonym rpc_request = "string \<times> rpc_params"

text \<open>
  The engine is an oracle: the reply to the \<open>n\<close>-th request of the run, either the
  error text of the gateway or a result payload.
\<close>

type_synonym engine = "nat \<Rightarrow> rpc_request \<Rightarrow> string + rpc_result"

subsection \<open>Server state\<close>

text \<open>
  \<open>BlkCtrls\<close> is \<open>map[string]*pb.VirtioBlk\<close>: it holds pointers, so the objects live in
  an explicit store. \<open>heap\<close> holds the \<open>VirtioBlk\<close> objects, \<open>object_keys\<close> the
  \<open>ObjectKey\<close> messages and \<open>pci_endpoints\<close> the \<open>PciEndpoint\<close> messages they point to.
  An address is an index into its list; allocation appends. \<open>calls\<close> records every
  request sent to the engine, oldest first.
\<close>

type_synonym addr = nat

record VirtioBlk_obj =
  Id_ref :: "addr option"
  PcieId_ref :: "addr option"
  VolumeId_ref :: "addr option"

record server =
  BlkCtrls :: "string \<rightharpoonup> addr"
  Pagination :: "string \<rightharpoonup> int"
  heap :: "VirtioBlk_obj list"
  object_keys :: "ObjectKey list"
  pci_endpoints :: "PciEndpoint list"
  calls :: "rpc_request list"

definition key_at :: "server \<Rightarrow> addr option \<Rightarrow> ObjectKey option" where
  "key_at s p =
     (case p of None \<Rightarrow> None
      | Some k \<Rightarrow> if k < length (object_keys s) then Some (object_keys s ! k) else None)"

definition endpoint_at :: "server \<Rightarrow> addr option \<Rightarrow> PciEndpoint option" where
  "endpoint_at s p =
     (case p of None \<Rightarrow> None
      | Some k \<Rightarrow> if k < length (pci_endpoints s) then Some (pci_endpoints s ! k) else None)"

definition content :: "server \<Rightarrow> VirtioBlk_obj \<Rightarrow> VirtioBlk" where
  "content s obj =
     \<lparr>Id' = key_at s (Id_ref obj),
      PcieId = endpoint_at s (PcieId_ref obj),
      VolumeId = key_at s (VolumeId_ref obj)\<rparr>"

definition deref :: "server \<Rightarrow> addr \<Rightarrow> VirtioBlk option" where
  "deref s a = (if a < length (heap s) then Some (content s (heap s ! a)) else None)"

definition alloc :: "server \<Rightarrow> VirtioBlk_obj \<Rightarrow> addr \<times> server" where
  "alloc s obj = (length (heap s), s\<lparr>heap := heap s @ [obj]\<rparr>)"

text \<open>
  Writes by the owner of an object: an assignment to the fields of the object itself,
  and a write into an \<open>ObjectKey\<close> message through its pointer.
\<close>

definition store :: "server \<Rightarrow> addr \<Rightarrow> VirtioBlk_obj \<Rightarrow> server" where
  "store s a obj = s\<lparr>heap := (heap s)[a := obj]\<rparr>"

definition store_key :: "server \<Rightarrow> addr \<Rightarrow> ObjectKey \<Rightarrow> server" where
  "store_key s k v = s\<lparr>object_keys := (object_keys s)[k := v]\<rparr>"

text \<open>What a reader of the Registry sees under a key.\<close>

definition lookup :: "server \<Rightarrow> string \<Rightarrow> VirtioBlk option" where
  "lookup s k = (case BlkCtrls s k of None \<Rightarrow> None | Some a \<Rightarrow> deref s a)"

text \<open>
  The Registry is keyed by the identifier of the object it stores: the invariant that
  Create establishes and that Delete relies on.
\<close>

definition keyed :: "server \<Rightarrow> bool" where
  "keyed s \<longleftrightarrow>
     (\<forall>k a. BlkCtrls s k = Some a \<longrightarrow>
        (\<exists>blk key. deref s a = Some blk \<and> Id' blk = Some key \<and> Value key = k))"

text \<open>No cursor holds a negative offset: an invariant of the cursor map.\<close>

definition nonneg_cursors :: "server \<Rightarrow> bool" where
  "nonneg_cursors s \<longleftrightarrow> (\<forall>t off. Pagination s t = Some off \<longrightarrow> 0 \<le> off)"

subsection \<open>Gateway calls\<close>

definition Call :: "engine \<Rightarrow> server \<Rightarrow> string \<Rightarrow> rpc_params \<Rightarrow> server \<times> (string + rpc_result)" where
  "Call rpc s method params =
     (s\<lparr>calls := calls s @ [(method, params)]\<rparr>, rpc (length (calls s)) (method, params))"

text \<open>
  \<open>rpc.Call\<close> decodes the payload into the variable it is given; a payload of another
  shape is the decode failure of section 4.1 of the specification.
\<close>

definition Call_bool :: "engine \<Rightarrow> server \<Rightarrow> string \<Rightarrow> rpc_params \<Rightarrow> server \<times> (string + bool)" where
  "Call_bool rpc s method params =
     (case Call rpc s method params of
        (s1, Inl err) \<Rightarrow> (s1, Inl err)
      | (s1, Inr (BoolResult b)) \<Rightarrow> (s1, Inr b)
      | (s1, Inr (ControllersResult _)) \<Rightarrow> (s1, Inl ''DecodeFailure''))"

definition Call_controllers ::
  "engine \<Rightarrow> server \<Rightarrow> string \<Rightarrow> rpc_params \<Rightarrow> server \<times> (string + VhostGetControllersResult list)" where
  "Call_controllers rpc s method params =
     (case Call rpc s method params of
        (s1, Inl err) \<Rightarrow> (s1, Inl err)
      | (s1, Inr (ControllersResult rs)) \<Rightarrow> (s1, Inr rs)
      | (s1, Inr (BoolResult _)) \<Rightarrow> (s1, Inl ''DecodeFailure''))"

section \<open>The operations of \<open>blk.go\<close>\<close>

text \<open>
  \<open>deepcopier.Copy(src).To(dst)\<close> assigns the exported fields of \<open>src\<close> to \<open>dst\<close>. A
  field that is a pointer is assigned as a pointer, so the copy points to the messages
  of the source. For two values of one struct type it reports no error.
\<close>

definition Copy_To :: "VirtioBlk_obj \<Rightarrow> string + VirtioBlk_obj" where
  "Copy_To src = Inr src"

text \<open>
  The request carries the pointer \<open>in.VirtioBlk\<close>. Reading through \<open>nil\<close> panics; an
  address outside the store, which Go cannot produce, is treated alike. The copy is
  taken from the object at the address of the request, which was read before. The
  result of a successful call is the pointer that is returned.
\<close>

definition CreateVirtioBlk :: "engine \<Rightarrow> server \<Rightarrow> addr option \<Rightarrow> server \<times> (error + addr)" where
  "CreateVirtioBlk rpc s in_VirtioBlk =
     (case in_VirtioBlk of None \<Rightarrow> (s, Inl Panic) | Some a \<Rightarrow>
      (case deref s a of None \<Rightarrow> (s, Inl Panic) | Some blk \<Rightarrow>
       (case Id' blk of None \<Rightarrow> (s, Inl Panic) | Some key \<Rightarrow>
        (case BlkCtrls s (Value key) of
           Some controller \<Rightarrow> (s, Inr controller)
         | None \<Rightarrow>
            (case VolumeId blk of None \<Rightarrow> (s, Inl Panic) | Some vol \<Rightarrow>
             (case Call_bool rpc s ''vhost_create_blk_controller''
                     (VhostCreateBlkControllerParams (Value key) (Value vol)) of
                (s1, Inl err) \<Rightarrow> (s1, Inl (Wrapped ErrFailedSpdkCall))
              | (s1, Inr result) \<Rightarrow>
                  if \<not> result then (s1, Inl (Wrapped ErrUnexpectedSpdkCallResult))
                  else
                    let s2 = s1\<lparr>BlkCtrls := (BlkCtrls s1)(Value key \<mapsto> a)\<rparr> in
                    (case Copy_To (heap s2 ! a) of
                       Inl err \<Rightarrow>
                         (s2, Inl (Status Internal ''Failed to construct device create response''))
                     | Inr copy \<Rightarrow>
                         let (response, s3) = alloc s2 copy in (s3, Inr response))))))))"

text \<open>
  The entry is deleted under \<open>controller.Id.Value\<close>, read from the stored object after
  the engine call.
\<close>

definition DeleteVirtioBlk :: "engine \<Rightarrow> server \<Rightarrow> string \<Rightarrow> bool \<Rightarrow> server \<times> (error + unit)" where
  "DeleteVirtioBlk rpc s Name AllowMissing =
     (case BlkCtrls s Name of
        None \<Rightarrow>
          if AllowMissing then (s, Inr ())
          else (s, Inl (Status NotFound (''unable to find key '' @ Name)))
      | Some controller \<Rightarrow>
          (case Call_bool rpc s ''vhost_delete_controller'' (VhostDeleteControllerParams Name) of
             (s1, Inl err) \<Rightarrow> (s1, Inl (RpcError err))
           | (s1, Inr result) \<Rightarrow>
               (case deref s1 controller of None \<Rightarrow> (s1, Inl Panic) | Some blk \<Rightarrow>
                (case Id' blk of None \<Rightarrow> (s1, Inl Panic) | Some key \<Rightarrow>
                   (s1\<lparr>BlkCtrls := (BlkCtrls s1)(Value key := None)\<rparr>, Inr ())))))"


subsection \<open>Pagination helpers\<close>

text \<open>
  A Go slice expression \<open>xs[lo:hi]\<close> panics unless \<open>0 \<le> lo \<le> hi \<le> len(xs)\<close>
  (the capacity of a decoded reply is not relied on).
\<close>

definition slice :: "'a list \<Rightarrow> int \<Rightarrow> int \<Rightarrow> 'a list option" where
  "slice xs lo hi =
     (if 0 \<le> lo \<and> lo \<le> hi \<and> hi \<le> int (length xs)
      then Some (take (nat (hi - lo)) (drop (nat lo) xs)) else None)"

text \<open>Modelled from the spec: \<open>server.ExtractPagination\<close> lives in another package of the
  repository and is not among the sources. Section 4.2 of the specification: the page
  size is validated first, a negative one failing with \<open>InvalidArgument\<close> and the
  message "negative PageSize is not allowed"; an unrecognized page token fails with
  \<open>NotFound\<close> naming the token; otherwise the offset is 0 without a token and the
  stored offset of the token with one, and the size is the requested page size or a
  module-wide default when that is zero. The default is the parameter
  \<open>defaultPageSize\<close>; the text of the \<open>NotFound\<close> message is the one the list tests of
  the repository expect.
\<close>

definition ExtractPagination ::
  "int \<Rightarrow> int \<Rightarrow> string \<Rightarrow> (string \<rightharpoonup> int) \<Rightarrow> error + (int \<times> int)" where
  "ExtractPagination defaultPageSize pageSize pageToken pagination =
     (if pageSize < 0 then Inl (Status InvalidArgument ''negative PageSize is not allowed'')
      else
        let size' = (if pageSize = 0 then defaultPageSize else pageSize) in
        if pageToken = [] then Inr (size', 0)
        else (case pagination pageToken of
                None \<Rightarrow> Inl (Status NotFound (''unable to find pagination token '' @ pageToken))
              | Some offset \<Rightarrow> Inr (size', offset)))"

text \<open>Modelled from the spec: \<open>server.LimitPagination\<close> lives in another package of the
  repository and is not among the sources. Section 4.2 of the specification: the reply
  is sliced \<open>[offset : offset+size]\<close>; elements remaining beyond the slice are reported
  to the caller, which then mints a cursor; section 3: no cursor for a page that
  exactly fills the remaining elements. A page reaching past the end stops at the end.
  The slice is Go's, so an offset outside the reply is a panic (\<open>None\<close>).
\<close>

definition LimitPagination :: "'a list \<Rightarrow> int \<Rightarrow> int \<Rightarrow> ('a list \<times> bool) option" where
  "LimitPagination result offset size' =
     (if offset + size' < int (length result)
      then map_option (\<lambda>page. (page, True)) (slice result offset (offset + size'))
      else map_option (\<lambda>page. (page, False)) (slice result offset (int (length result))))"

subsection \<open>Formatting\<close>

text \<open>The verb \<open>%d\<close> on a length: decimal digits, the last one produced first.\<close>

function decimal_digits :: "nat \<Rightarrow> string \<Rightarrow> string" where
  "decimal_digits n acc =
     (let acc' = (''0123456789'' ! (n mod 10)) # acc
      in if n < 10 then acc' else decimal_digits (n div 10) acc')"
  by pat_completeness auto
termination
  by (relation "measure fst") auto

definition string_of_nat :: "nat \<Rightarrow> string" where
  "string_of_nat n = decimal_digits n []"

subsection \<open>List and Get\<close>

text \<open>
  The objects that List and Get return are built on the spot from an engine record.
\<close>

definition shape :: "VhostGetControllersResult \<Rightarrow> VirtioBlk" where
  "shape r =
     \<lparr>Id' = Some \<lparr>Value = Ctrlr r\<rparr>,
      PcieId = Some \<lparr>PhysicalFunction = 1, VirtualFunction = 0\<rparr>,
      VolumeId = Some \<lparr>Value = ''TBD''\<rparr>\<rparr>"

text \<open>
  \<open>uuid\<close> is the string that \<open>uuid.New().String()\<close> yields in this call. Go's \<open>int\<close>
  has 64 bits: a sum \<open>offset + size\<close> that is stored lies below the length of the reply,
  and one that would wrap needs an offset far beyond any reply, where the slice
  expression panics in Go and in the model alike. The integers are therefore unbounded.
\<close>

definition ListVirtioBlks ::
  "engine \<Rightarrow> string \<Rightarrow> int \<Rightarrow> server \<Rightarrow> int \<Rightarrow> string \<Rightarrow> server \<times> (error + ListVirtioBlksResponse)" where
  "ListVirtioBlks rpc uuid defaultPageSize s PageSize PageToken =
     (case ExtractPagination defaultPageSize PageSize PageToken (Pagination s) of
        Inl perr \<Rightarrow> (s, Inl perr)
      | Inr (size', offset) \<Rightarrow>
          (case Call_controllers rpc s ''vhost_get_controllers'' NoParams of
             (s1, Inl err) \<Rightarrow> (s1, Inl (RpcError err))
           | (s1, Inr result) \<Rightarrow>
               (case LimitPagination result offset size' of
                  None \<Rightarrow> (s1, Inl Panic)
                | Some (page, hasMoreElements) \<Rightarrow>
                    let (token, s2) =
                          (if hasMoreElements
                           then (uuid, s1\<lparr>Pagination := (Pagination s1)(uuid \<mapsto> offset + size')\<rparr>)
                           else ([], s1));
                        Blobarray = map shape page
                    in (s2, Inr \<lparr>VirtioBlks = Blobarray, NextPageToken = token\<rparr>))))"

text \<open>
  The message of the first failure is passed to \<open>status.Errorf\<close> as the format; the
  model gives its text for a name without a formatting verb.
\<close>

definition GetVirtioBlk :: "engine \<Rightarrow> server \<Rightarrow> string \<Rightarrow> server \<times> (error + VirtioBlk)" where
  "GetVirtioBlk rpc s Name =
     (case BlkCtrls s Name of
        None \<Rightarrow> (s, Inl (Status InvalidArgument (''Could not find Controller: '' @ Name)))
      | Some _ \<Rightarrow>
          (case Call_controllers rpc s ''vhost_get_controllers'' (VhostGetControllersParams Name) of
             (s1, Inl err) \<Rightarrow> (s1, Inl (RpcError err))
           | (s1, Inr result) \<Rightarrow>
               if length result \<noteq> 1
               then (s1, Inl (Status InvalidArgument
                       (''expecting exactly 1 result, got '' @ string_of_nat (length result))))
               else (s1, Inr (shape (result ! 0)))))"

section \<open>Listener address resolver\<close>

text \<open>
  The resolver \<open>NewTCPSubsystemListener\<close> is known from its test, which gives the
  descriptor its three fields, the port being kept as text, and from section 4.4 of the
  specification. Addresses are kept as numbers: four for IPv4, eight groups for IPv6.
\<close>

datatype IP = IPv4 int int int int | IPv6 "int list"

datatype protocol = ipv4NvmeTCPProtocol | ipv6NvmeTCPProtocol

record tcpSubsystemListener =
  listenAddr :: IP
  listenPort :: string
  protocol :: protocol

definition digit_val :: "char \<Rightarrow> int option" where
  "digit_val c =
     (let n = (of_char c :: int) in if 48 \<le> n \<and> n \<le> 57 then Some (n - 48) else None)"

definition hex_val :: "char \<Rightarrow> int option" where
  "hex_val c =
     (let n = (of_char c :: int) in
      if 48 \<le> n \<and> n \<le> 57 then Some (n - 48)
      else if 97 \<le> n \<and> n \<le> 102 then Some (n - 87)
      else if 65 \<le> n \<and> n \<le> 70 then Some (n - 55)
      else None)"

fun number :: "(char \<Rightarrow> int option) \<Rightarrow> int \<Rightarrow> int \<Rightarrow> string \<Rightarrow> int option" where
  "number val base acc [] = Some acc"
| "number val base acc (c # cs) =
     (case val c of None \<Rightarrow> None | Some d \<Rightarrow> number val base (acc * base + d) cs)"

definition octet :: "string \<Rightarrow> int option" where
  "octet w =
     (if w = [] \<or> 3 < length w then None
      else case number digit_val 10 0 w of
             None \<Rightarrow> None
           | Some n \<Rightarrow> if n \<le> 255 then Some n else None)"

definition hextet :: "string \<Rightarrow> int option" where
  "hextet w = (if w = [] \<or> 4 < length w then None else number hex_val 16 0 w)"

fun split_on :: "char \<Rightarrow> string \<Rightarrow> string list" where
  "split_on c [] = [[]]"
| "split_on c (x # xs) =
     (if x = c then [] # split_on c xs
      else case split_on c xs of [] \<Rightarrow> [[x]] | w # ws \<Rightarrow> (x # w) # ws)"

fun split_double_colon :: "string \<Rightarrow> (string \<times> string) option" where
  "split_double_colon (a # b # xs) =
     (if a = CHR '':'' \<and> b = CHR '':'' then Some ([], xs)
      else map_option (\<lambda>(l, r). (a # l, r)) (split_double_colon (b # xs)))"
| "split_double_colon _ = None"

definition hextets :: "string \<Rightarrow> int list option" where
  "hextets w = (if w = [] then Some [] else those (map hextet (split_on CHR '':'' w)))"

text \<open>Modelled from the spec: the IPv4 parse of section 4.4 ("attempt IPv4 parse"), the
  parser itself being outside the sources. The text form is the usual one: four decimal
  numbers of one to three digits, each at most 255, with dots between.
\<close>

definition ParseIPv4 :: "string \<Rightarrow> IP option" where
  "ParseIPv4 host =
     (case those (map octet (split_on CHR ''.'' host)) of
        Some [a, b, c, d] \<Rightarrow> Some (IPv4 a b c d)
      | _ \<Rightarrow> None)"

text \<open>Modelled from the spec: the IPv6 parse of section 4.4 ("then IPv6 parse"), the
  parser itself being outside the sources. The text form is the usual one: eight groups
  of one to four hexadecimal digits with colons between, one run of zero groups
  possibly written as a double colon.
\<close>

definition ParseIPv6 :: "string \<Rightarrow> IP option" where
  "ParseIPv6 host =
     (case split_double_colon host of
        None \<Rightarrow>
          (case those (map hextet (split_on CHR '':'' host)) of
             None \<Rightarrow> None
           | Some gs \<Rightarrow> if length gs = 8 then Some (IPv6 gs) else None)
      | Some (l, r) \<Rightarrow>
          (case hextets l of None \<Rightarrow> None | Some ls \<Rightarrow>
           (case hextets r of None \<Rightarrow> None | Some rs \<Rightarrow>
              if length ls + length rs \<le> 7
              then Some (IPv6 (ls @ replicate (8 - (length ls + length rs)) 0 @ rs))
              else None)))"

text \<open>Modelled from the spec: the split of section 4.4 ("split host:port"), the
  splitter itself being outside the sources. The port is what follows the last colon;
  a string without a colon has no port. A host that holds colons stands in brackets.
\<close>

definition SplitHostPort :: "string \<Rightarrow> (string \<times> string) option" where
  "SplitHostPort hostport =
     (let port = rev (takeWhile (\<lambda>c. c \<noteq> CHR '':'') (rev hostport)) in
      case dropWhile (\<lambda>c. c \<noteq> CHR '':'') (rev hostport) of
        [] \<Rightarrow> None
      | _ # h \<Rightarrow>
          let host = rev h in
          if host \<noteq> [] \<and> hd host = CHR ''[''
          then (if 2 \<le> length host \<and> last host = CHR '']''
                then Some (butlast (tl host), port) else None)
          else if CHR '':'' \<in> set host \<or> CHR ''['' \<in> set host \<or> CHR '']'' \<in> set host
          then None
          else Some (host, port))"

text \<open>Modelled from the spec: \<open>NewTCPSubsystemListener\<close> is not among the sources, only
  its test is. Section 4.4 of the specification: the endpoint string is split into host
  and port; the host is tried as an IPv4 address, then as an IPv6 address, and the
  transport tag is chosen accordingly; a missing port, an unparseable host or the empty
  string terminates the operation, which is the panic the test recovers from.
\<close>

definition NewTCPSubsystemListener :: "string \<Rightarrow> error + tcpSubsystemListener" where
  "NewTCPSubsystemListener listenAddress =
     (case SplitHostPort listenAddress of
        None \<Rightarrow> Inl Panic
      | Some (host, port) \<Rightarrow>
          (case ParseIPv4 host of
             Some ip \<Rightarrow>
               Inr \<lparr>listenAddr = ip, listenPort = port, protocol = ipv4NvmeTCPProtocol\<rparr>
           | None \<Rightarrow>
               (case ParseIPv6 host of
                  Some ip \<Rightarrow>
                    Inr \<lparr>listenAddr = ip, listenPort = port, protocol = ipv6NvmeTCPProtocol\<rparr>
                | None \<Rightarrow> Inl Panic)))"

section \<open>Example states and engines\<close>

definition server0 :: server where
  "server0 =
     \<lparr>BlkCtrls = Map.empty, Pagination = Map.empty, heap = [], object_keys = [],
      pci_endpoints = [], calls = []\<rparr>"

definition blk42 :: VirtioBlk where
  "blk42 =
     \<lparr>Id' = Some \<lparr>Value = ''virtio-blk-42''\<rparr>,
      PcieId = Some \<lparr>PhysicalFunction = 42, VirtualFunction = 0\<rparr>,
      VolumeId = Some \<lparr>Value = ''Malloc42''\<rparr>\<rparr>"

definition blk42' :: VirtioBlk where
  "blk42' =
     \<lparr>Id' = Some \<lparr>Value = ''virtio-blk-42''\<rparr>,
      PcieId = Some \<lparr>PhysicalFunction = 7, VirtualFunction = 0\<rparr>,
      VolumeId = Some \<lparr>Value = ''Malloc7''\<rparr>\<rparr>"

definition obj42 :: VirtioBlk_obj where
  "obj42 = \<lparr>Id_ref = Some 0, PcieId_ref = Some 0, VolumeId_ref = Some 1\<rparr>"

definition obj42' :: VirtioBlk_obj where
  "obj42' = \<lparr>Id_ref = Some 2, PcieId_ref = Some 1, VolumeId_ref = Some 3\<rparr>"

text \<open>
  A request object of a caller at address 0, with content \<open>blk42\<close>, nothing registered
  yet.
\<close>

definition server1 :: server where
  "server1 =
     \<lparr>BlkCtrls = Map.empty, Pagination = Map.empty, heap = [obj42],
      object_keys = [\<lparr>Value = ''virtio-blk-42''\<rparr>, \<lparr>Value = ''Malloc42''\<rparr>],
      pci_endpoints = [\<lparr>PhysicalFunction = 42, VirtualFunction = 0\<rparr>], calls = []\<rparr>"

text \<open>
  The same object registered under its identifier, a second request object with content
  \<open>blk42'\<close> at address 1, and one cursor.
\<close>

definition server2 :: server where
  "server2 =
     \<lparr>BlkCtrls = [''virtio-blk-42'' \<mapsto> 0],
      Pagination = [''existing-pagination-token'' \<mapsto> 2],
      heap = [obj42, obj42'],
      object_keys = [\<lparr>Value = ''virtio-blk-42''\<rparr>, \<lparr>Value = ''Malloc42''\<rparr>,
                     \<lparr>Value = ''virtio-blk-42''\<rparr>, \<lparr>Value = ''Malloc7''\<rparr>],
      pci_endpoints = [\<lparr>PhysicalFunction = 42, VirtualFunction = 0\<rparr>,
                       \<lparr>PhysicalFunction = 7, VirtualFunction = 0\<rparr>],
      calls = []\<rparr>"

definition engine_true :: engine where
  "engine_true n q = Inr (BoolResult True)"

definition engine_false :: engine where
  "engine_false n q = Inr (BoolResult False)"

definition engine_EOF :: engine where
  "engine_EOF n q = Inl ''EOF''"

definition engine_three :: engine where
  "engine_three n q =
     Inr (ControllersResult
           [\<lparr>Ctrlr = ''VblkEmu0pf0''\<rparr>, \<lparr>Ctrlr = ''VblkEmu0pf2''\<rparr>, \<lparr>Ctrlr = ''VblkEmu0pf3''\<rparr>])"

definition engine_one :: engine where
  "engine_one n q = Inr (ControllersResult [\<lparr>Ctrlr = ''VblkEmu0pf2''\<rparr>])"

text \<open>An engine whose list of five controllers has shrunk to two at its second request.\<close>

definition engine_shrinking :: engine where
  "engine_shrinking n q =
     Inr (ControllersResult
           (if n = 0
            then [\<lparr>Ctrlr = ''VblkEmu0pf0''\<rparr>, \<lparr>Ctrlr = ''VblkEmu0pf1''\<rparr>, \<lparr>Ctrlr = ''VblkEmu0pf2''\<rparr>,
                  \<lparr>Ctrlr = ''VblkEmu0pf3''\<rparr>, \<lparr>Ctrlr = ''VblkEmu0pf4''\<rparr>]
            else [\<lparr>Ctrlr = ''VblkEmu0pf0''\<rparr>, \<lparr>Ctrlr = ''VblkEmu0pf1''\<rparr>]))"

section \<open>Properties\<close>

subsection \<open>Gateway and store\<close>

lemma Call_bool_state:
  "Call_bool rpc s m p = (s1, r) \<Longrightarrow> s1 = s\<lparr>calls := calls s @ [(m, p)]\<rparr>"
  by (auto simp: Call_bool_def Call_def split: sum.splits rpc_result.splits)

lemma Call_controllers_state:
  "Call_controllers rpc s m p = (s1, r) \<Longrightarrow> s1 = s\<lparr>calls := calls s @ [(m, p)]\<rparr>"
  by (auto simp: Call_controllers_def Call_def split: sum.splits rpc_result.splits)

lemma key_at_same: "object_keys s' = object_keys s \<Longrightarrow> key_at s' p = key_at s p"
  by (cases p) (simp_all add: key_at_def)

lemma endpoint_at_same:
  "pci_endpoints s' = pci_endpoints s \<Longrightarrow> endpoint_at s' p = endpoint_at s p"
  by (cases p) (simp_all add: endpoint_at_def)

lemma content_same:
  assumes "object_keys s' = object_keys s" and "pci_endpoints s' = pci_endpoints s"
  shows "content s' obj = content s obj"
proof -
  from assms(1) have "key_at s' p = key_at s p" for p by (rule key_at_same)
  moreover from assms(2) have "endpoint_at s' p = endpoint_at s p" for p
    by (rule endpoint_at_same)
  ultimately show ?thesis by (simp add: content_def)
qed

lemma deref_heap_same:
  assumes "heap s' = heap s" and "object_keys s' = object_keys s"
    and "pci_endpoints s' = pci_endpoints s"
  shows "deref s' a = deref s a"
  using assms(1) content_same [OF assms(2,3)] by (simp add: deref_def)

lemma deref_heap_append:
  assumes "heap s' = heap s @ ws" and "object_keys s' = object_keys s"
    and "pci_endpoints s' = pci_endpoints s" and "deref s a = Some v"
  shows "deref s' a = Some v"
proof -
  from assms(4) have "a < length (heap s)" "v = content s (heap s ! a)"
    by (auto simp: deref_def split: if_splits)
  with assms(1) content_same [OF assms(2,3)] show ?thesis
    by (simp add: deref_def nth_append)
qed

lemma deref_Some:
  "deref s a = Some blk \<Longrightarrow> a < length (heap s) \<and> content s (heap s ! a) = blk"
  by (auto simp: deref_def split: if_splits)

lemma deref_calls [simp]: "deref (s\<lparr>calls := c\<rparr>) a = deref s a"
  by (rule deref_heap_same) simp_all

lemma deref_BlkCtrls [simp]: "deref (s\<lparr>BlkCtrls := c\<rparr>) a = deref s a"
  by (rule deref_heap_same) simp_all

text \<open>The outcome of a Create that misses the Registry and whose engine call succeeds.\<close>

lemma CreateVirtioBlk_fresh:
  assumes "deref s a = Some blk" and "Id' blk = Some key" and "VolumeId blk = Some vol"
    and "BlkCtrls s (Value key) = None"
    and "Call_bool rpc s ''vhost_create_blk_controller''
           (VhostCreateBlkControllerParams (Value key) (Value vol)) = (s1, Inr True)"
  shows "CreateVirtioBlk rpc s (Some a) =
           (s1\<lparr>BlkCtrls := (BlkCtrls s)(Value key \<mapsto> a), heap := heap s @ [heap s ! a]\<rparr>,
            Inr (length (heap s)))"
proof -
  from Call_bool_state [OF assms(5)]
  have "BlkCtrls s1 = BlkCtrls s" "heap s1 = heap s" by simp_all
  then show ?thesis
    using assms by (simp add: CreateVirtioBlk_def Copy_To_def alloc_def)
qed

lemma CreateVirtioBlk_hit:
  assumes "deref s a = Some blk" and "Id' blk = Some key" and "BlkCtrls s (Value key) = Some c"
  shows "CreateVirtioBlk rpc s (Some a) = (s, Inr c)"
  using assms by (simp add: CreateVirtioBlk_def)

lemma CreateVirtioBlk_hit_inv:
  assumes "deref s a = Some blk" and "Id' blk = Some key"
    and "BlkCtrls s (Value key) = Some c"
    and "CreateVirtioBlk rpc s (Some a) = (s1, Inr r1)"
  shows "s1 = s \<and> r1 = c"
  using assms by (simp add: CreateVirtioBlk_def)

lemma CreateVirtioBlk_miss_inv:
  assumes "deref s a = Some blk" and "Id' blk = Some key"
    and "BlkCtrls s (Value key) = None"
    and "CreateVirtioBlk rpc s (Some a) = (s1, Inr r1)"
  shows "r1 = length (heap s) \<and> BlkCtrls s1 = (BlkCtrls s)(Value key \<mapsto> a)
       \<and> heap s1 = heap s @ [heap s ! a] \<and> object_keys s1 = object_keys s
       \<and> pci_endpoints s1 = pci_endpoints s
       \<and> length (calls s1) = length (calls s) + 1"
proof (cases "VolumeId blk")
  case None
  with assms show ?thesis by (simp add: CreateVirtioBlk_def)
next
  case (Some vol)
  obtain s' res where c: "Call_bool rpc s ''vhost_create_blk_controller''
         (VhostCreateBlkControllerParams (Value key) (Value vol)) = (s', res)"
    by (cases "Call_bool rpc s ''vhost_create_blk_controller''
         (VhostCreateBlkControllerParams (Value key) (Value vol))")
  have "res = Inr True"
    using assms Some c
    by (cases res) (auto simp: CreateVirtioBlk_def split: if_splits)
  with c have c': "Call_bool rpc s ''vhost_create_blk_controller''
         (VhostCreateBlkControllerParams (Value key) (Value vol)) = (s', Inr True)" by simp
  from CreateVirtioBlk_fresh [OF assms(1,2) Some assms(3) c'] assms(4)
  have "s1 = s'\<lparr>BlkCtrls := (BlkCtrls s)(Value key \<mapsto> a), heap := heap s @ [heap s ! a]\<rparr>"
    and r: "r1 = length (heap s)" by simp_all
  then have "BlkCtrls s1 = (BlkCtrls s)(Value key \<mapsto> a)" "heap s1 = heap s @ [heap s ! a]"
    "calls s1 = calls s'" "object_keys s1 = object_keys s'"
    "pci_endpoints s1 = pci_endpoints s'" by simp_all
  moreover from Call_bool_state [OF c']
  have "length (calls s') = length (calls s) + 1" "object_keys s' = object_keys s"
    "pci_endpoints s' = pci_endpoints s" by simp_all
  ultimately show ?thesis using r by simp
qed

subsection \<open>Create\<close>

text \<open>
  C1. Create is idempotent on the resource identifier. When the Registry already holds
  an entry under the identifier of the request, Create returns the stored object and
  leaves the whole state as it was, so no request goes to the engine, whatever the rest
  of the supplied object says. When a first Create returns an object, a second Create
  under the same identifier returns the object the Registry stores, its content equal
  to what the first call returned, and the two calls together send at most one request
  to the engine.
\<close>

theorem CreateVirtioBlk_idempotent:
  assumes "deref s a = Some blk" and "Id' blk = Some key"
  shows "(BlkCtrls s (Value key) = Some c \<longrightarrow> CreateVirtioBlk rpc s (Some a) = (s, Inr c))
       \<and> (CreateVirtioBlk rpc s (Some a) = (s1, Inr r1) \<and> deref s a2 = Some blk2
           \<and> Id' blk2 = Some key2 \<and> Value key2 = Value key \<longrightarrow>
          (\<exists>r2. CreateVirtioBlk rpc s1 (Some a2) = (s1, Inr r2)
                \<and> BlkCtrls s1 (Value key) = Some r2 \<and> deref s1 r2 = deref s1 r1)
          \<and> length (calls s1) \<le> length (calls s) + 1)"
proof (intro conjI impI)
  assume "BlkCtrls s (Value key) = Some c"
  with assms show "CreateVirtioBlk rpc s (Some a) = (s, Inr c)" by (rule CreateVirtioBlk_hit)
next
  assume h: "CreateVirtioBlk rpc s (Some a) = (s1, Inr r1) \<and> deref s a2 = Some blk2
           \<and> Id' blk2 = Some key2 \<and> Value key2 = Value key"
  then have first: "CreateVirtioBlk rpc s (Some a) = (s1, Inr r1)"
    and d2: "deref s a2 = Some blk2" and i2: "Id' blk2 = Some key2"
    and k2: "Value key2 = Value key" by simp_all
  show "\<exists>r2. CreateVirtioBlk rpc s1 (Some a2) = (s1, Inr r2)
                \<and> BlkCtrls s1 (Value key) = Some r2 \<and> deref s1 r2 = deref s1 r1"
  proof (cases "BlkCtrls s (Value key)")
    case (Some c)
    from CreateVirtioBlk_hit_inv [OF assms Some first] have e: "s1 = s" "r1 = c" by simp_all
    from Some k2 have "BlkCtrls s (Value key2) = Some c" by simp
    from CreateVirtioBlk_hit [OF d2 i2 this] Some e show ?thesis by simp
  next
    case None
    from CreateVirtioBlk_miss_inv [OF assms None first]
    have r1: "r1 = length (heap s)" and b1: "BlkCtrls s1 = (BlkCtrls s)(Value key \<mapsto> a)"
      and h1: "heap s1 = heap s @ [heap s ! a]" and k1: "object_keys s1 = object_keys s"
      and e1: "pci_endpoints s1 = pci_endpoints s" by simp_all
    from deref_Some [OF assms(1)] have a: "a < length (heap s)" by simp
    from h1 k1 e1 d2 have d2': "deref s1 a2 = Some blk2" by (rule deref_heap_append)
    have "BlkCtrls s1 (Value key2) = Some a" by (simp add: b1 k2)
    with d2' i2 have "CreateVirtioBlk rpc s1 (Some a2) = (s1, Inr a)"
      by (rule CreateVirtioBlk_hit)
    moreover have "BlkCtrls s1 (Value key) = Some a" by (simp add: b1)
    moreover have "deref s1 a = deref s1 r1"
      using a by (simp add: r1 h1 deref_def nth_append)
    ultimately show ?thesis by blast
  qed
next
  assume h: "CreateVirtioBlk rpc s (Some a) = (s1, Inr r1) \<and> deref s a2 = Some blk2
           \<and> Id' blk2 = Some key2 \<and> Value key2 = Value key"
  then have first: "CreateVirtioBlk rpc s (Some a) = (s1, Inr r1)" by simp
  show "length (calls s1) \<le> length (calls s) + 1"
  proof (cases "BlkCtrls s (Value key)")
    case (Some c)
    from CreateVirtioBlk_hit_inv [OF assms Some first] show ?thesis by simp
  next
    case None
    from CreateVirtioBlk_miss_inv [OF assms None first] show ?thesis by simp
  qed
qed

theorem CreateVirtioBlk_idempotent_witness:
  "deref server1 0 = Some blk42 \<and> Id' blk42 = Some \<lparr>Value = ''virtio-blk-42''\<rparr>
   \<and> BlkCtrls server2 ''virtio-blk-42'' = Some 0
   \<and> deref server2 1 = Some blk42' \<and> Id' blk42' = Some \<lparr>Value = ''virtio-blk-42''\<rparr>
   \<and> blk42' \<noteq> blk42
   \<and> CreateVirtioBlk engine_EOF server2 (Some 1) = (server2, Inr 0)
   \<and> (\<exists>s1 r1 r2. CreateVirtioBlk engine_true server1 (Some 0) = (s1, Inr r1)
        \<and> CreateVirtioBlk engine_true s1 (Some 0) = (s1, Inr r2)
        \<and> deref s1 r2 = deref s1 r1 \<and> deref s1 r1 = Some blk42
        \<and> length (calls s1) \<le> length (calls server1) + 1)"
proof -
  have d1: "deref server1 0 = Some blk42"
    by (simp add: deref_def content_def key_at_def endpoint_at_def server1_def obj42_def
        blk42_def)
  have i1: "Id' blk42 = Some \<lparr>Value = ''virtio-blk-42''\<rparr>" by (simp add: blk42_def)
  have b2: "BlkCtrls server2 ''virtio-blk-42'' = Some 0" by (simp add: server2_def)
  have d2: "deref server2 1 = Some blk42'"
    by (simp add: deref_def content_def key_at_def endpoint_at_def server2_def obj42'_def
        blk42'_def)
  have i2: "Id' blk42' = Some \<lparr>Value = ''virtio-blk-42''\<rparr>" by (simp add: blk42'_def)
  have ne: "blk42' \<noteq> blk42" by (simp add: blk42_def blk42'_def)
  have hit: "CreateVirtioBlk engine_EOF server2 (Some 1) = (server2, Inr 0)"
    using CreateVirtioBlk_idempotent [OF d2 i2, of 0 engine_EOF] b2 by simp
  obtain s1 where s1: "s1 = server1\<lparr>calls := [(''vhost_create_blk_controller'',
        VhostCreateBlkControllerParams ''virtio-blk-42'' ''Malloc42'')],
        BlkCtrls := [''virtio-blk-42'' \<mapsto> 0], heap := [obj42, obj42]\<rparr>" by simp
  have c1: "CreateVirtioBlk engine_true server1 (Some 0) = (s1, Inr 1)"
    by (simp add: s1 CreateVirtioBlk_def deref_def content_def key_at_def endpoint_at_def
        server1_def obj42_def Call_bool_def Call_def engine_true_def Copy_To_def alloc_def)
  from CreateVirtioBlk_idempotent [OF d1 i1, of 0 engine_true s1 1 0 blk42 "\<lparr>Value = ''virtio-blk-42''\<rparr>"]
    c1 d1 i1
  have "(\<exists>r2. CreateVirtioBlk engine_true s1 (Some 0) = (s1, Inr r2)
                \<and> BlkCtrls s1 ''virtio-blk-42'' = Some r2 \<and> deref s1 r2 = deref s1 1)
          \<and> length (calls s1) \<le> length (calls server1) + 1" by simp
  moreover have "deref s1 1 = Some blk42"
    by (simp add: s1 deref_def content_def key_at_def endpoint_at_def server1_def obj42_def
        blk42_def)
  ultimately have "\<exists>s1 r1 r2. CreateVirtioBlk engine_true server1 (Some 0) = (s1, Inr r1)
        \<and> CreateVirtioBlk engine_true s1 (Some 0) = (s1, Inr r2)
        \<and> deref s1 r2 = deref s1 r1 \<and> deref s1 r1 = Some blk42
        \<and> length (calls s1) \<le> length (calls server1) + 1"
    using c1 by blast
  with d1 i1 b2 d2 i2 ne hit show ?thesis by blast
qed

text \<open>
  C2, as the claim states it, fails. In the run below the caller's request object is at
  address 0 and the engine accepts. Afterwards the Registry holds address 0 itself, not a
  copy. The object returned to the caller is the new one at address 1, but its volume
  identifier is message 1, the very message of the caller's object: when the caller
  later writes into that message, both what the Registry holds and what was returned
  change.
\<close>

theorem CreateVirtioBlk_shares_request_memory:
  "BlkCtrls (fst (CreateVirtioBlk engine_true server1 (Some 0))) ''virtio-blk-42'' = Some 0
   \<and> snd (CreateVirtioBlk engine_true server1 (Some 0)) = Inr 1
   \<and> deref (fst (CreateVirtioBlk engine_true server1 (Some 0))) 1 = Some blk42
   \<and> VolumeId_ref (heap server1 ! 0) = Some 1
   \<and> VolumeId_ref (heap (fst (CreateVirtioBlk engine_true server1 (Some 0))) ! 1) = Some 1
   \<and> deref (store_key (fst (CreateVirtioBlk engine_true server1 (Some 0))) 1
              \<lparr>Value = ''Malloc7''\<rparr>) 1
         = Some (blk42\<lparr>VolumeId := Some \<lparr>Value = ''Malloc7''\<rparr>\<rparr>)
   \<and> lookup (store_key (fst (CreateVirtioBlk engine_true server1 (Some 0))) 1
              \<lparr>Value = ''Malloc7''\<rparr>) ''virtio-blk-42''
         = Some (blk42\<lparr>VolumeId := Some \<lparr>Value = ''Malloc7''\<rparr>\<rparr>)
   \<and> blk42\<lparr>VolumeId := Some \<lparr>Value = ''Malloc7''\<rparr>\<rparr> \<noteq> blk42"
proof -
  let ?s' = "server1\<lparr>calls := [(''vhost_create_blk_controller'',
        VhostCreateBlkControllerParams ''virtio-blk-42'' ''Malloc42'')],
        BlkCtrls := [''virtio-blk-42'' \<mapsto> 0], heap := [obj42, obj42]\<rparr>"
  have c: "CreateVirtioBlk engine_true server1 (Some 0) = (?s', Inr 1)"
    by (simp add: CreateVirtioBlk_def deref_def content_def key_at_def endpoint_at_def
        server1_def obj42_def Call_bool_def Call_def engine_true_def Copy_To_def alloc_def)
  have 1: "BlkCtrls ?s' ''virtio-blk-42'' = Some 0" by simp
  have 2: "deref ?s' 1 = Some blk42"
    by (simp add: deref_def content_def key_at_def endpoint_at_def server1_def obj42_def
        blk42_def)
  have 3: "VolumeId_ref (heap server1 ! 0) = Some 1" by (simp add: server1_def obj42_def)
  have 4: "VolumeId_ref (heap ?s' ! 1) = Some 1" by (simp add: obj42_def)
  have 5: "deref (store_key ?s' 1 \<lparr>Value = ''Malloc7''\<rparr>) 1
         = Some (blk42\<lparr>VolumeId := Some \<lparr>Value = ''Malloc7''\<rparr>\<rparr>)"
    by (simp add: store_key_def deref_def content_def key_at_def endpoint_at_def server1_def
        obj42_def blk42_def)
  have 6: "lookup (store_key ?s' 1 \<lparr>Value = ''Malloc7''\<rparr>) ''virtio-blk-42''
         = Some (blk42\<lparr>VolumeId := Some \<lparr>Value = ''Malloc7''\<rparr>\<rparr>)"
    by (simp add: lookup_def store_key_def deref_def content_def key_at_def endpoint_at_def
        server1_def obj42_def blk42_def)
  have 7: "blk42\<lparr>VolumeId := Some \<lparr>Value = ''Malloc7''\<rparr>\<rparr> \<noteq> blk42"
    by (simp add: blk42_def)
  from 1 2 3 4 5 6 7 show ?thesis unfolding c fst_conv snd_conv by (intro conjI) simp_all
qed

text \<open>
  C2, amended. On a Create that misses the Registry and that the engine accepts, the
  Registry stores the pointer to the caller's object itself, not a copy. A newly
  allocated object is returned: its pointer is fresh and differs from the caller's, its
  fields are those of the caller's object, so it has the same content and points to the
  same nested messages. A later assignment of the caller to its object changes what the
  Registry holds and not what was returned; a later write of the caller into the
  identifier message changes both.
\<close>

theorem CreateVirtioBlk_stores_pointer_returns_copy:
  assumes "deref s a = Some blk" and "Id' blk = Some key" and "VolumeId blk = Some vol"
    and "BlkCtrls s (Value key) = None"
    and "Call_bool rpc s ''vhost_create_blk_controller''
           (VhostCreateBlkControllerParams (Value key) (Value vol)) = (s1, Inr True)"
  shows "\<exists>s' r. CreateVirtioBlk rpc s (Some a) = (s', Inr r)
           \<and> BlkCtrls s' (Value key) = Some a
           \<and> r \<noteq> a \<and> deref s r = None
           \<and> deref s' r = Some blk \<and> lookup s' (Value key) = Some blk
           \<and> heap s' ! r = heap s' ! a
           \<and> lookup (store s' a obj) (Value key) = Some (content s' obj)
           \<and> deref (store s' a obj) r = Some blk
           \<and> (\<exists>k. Id_ref (heap s' ! r) = Some k \<and> Id_ref (heap s' ! a) = Some k
                \<and> map_option Id' (deref (store_key s' k v) r) = Some (Some v)
                \<and> map_option Id' (lookup (store_key s' k v) (Value key)) = Some (Some v))"
proof -
  define s' where
    "s' = s1\<lparr>BlkCtrls := (BlkCtrls s)(Value key \<mapsto> a), heap := heap s @ [heap s ! a]\<rparr>"
  define r where "r = length (heap s)"
  from Call_bool_state [OF assms(5)]
  have same: "object_keys s1 = object_keys s" "pci_endpoints s1 = pci_endpoints s" by simp_all
  have h: "heap s' = heap s @ [heap s ! a]" and b: "BlkCtrls s' (Value key) = Some a"
    and ks: "object_keys s' = object_keys s" and es: "pci_endpoints s' = pci_endpoints s"
    using same by (simp_all add: s'_def)
  from deref_Some [OF assms(1)]
  have a: "a < length (heap s)" and ca: "content s (heap s ! a) = blk" by simp_all
  have c: "CreateVirtioBlk rpc s (Some a) = (s', Inr r)"
    unfolding s'_def r_def using assms by (rule CreateVirtioBlk_fresh)
  have ne: "r \<noteq> a" using a by (simp add: r_def)
  have fresh: "deref s r = None" by (simp add: deref_def r_def)
  have hr: "heap s' ! r = heap s ! a" by (simp add: h r_def)
  have ha: "heap s' ! a = heap s ! a" using a by (simp add: h nth_append)
  have lr: "r < length (heap s')" and la: "a < length (heap s')"
    using a by (simp_all add: h r_def)
  have cs: "content s' x = content s x" for x using ks es by (rule content_same)
  have dr: "deref s' r = Some blk" using lr hr ca cs by (simp add: deref_def)
  have da: "deref s' a = Some blk" using la ha ca cs by (simp add: deref_def)
  have l: "lookup s' (Value key) = Some blk" using b da by (simp add: lookup_def)
  have sh: "heap s' ! r = heap s' ! a" using hr ha by simp
  have st: "content (store s' a obj) x = content s' x" for x
    by (rule content_same) (simp_all add: store_def)
  have w1: "lookup (store s' a obj) (Value key) = Some (content s' obj)"
    using b la st by (simp add: lookup_def deref_def store_def)
  have w2: "deref (store s' a obj) r = Some blk"
    using lr ne hr ca cs st by (simp add: deref_def store_def)
  from assms(2) ca have "key_at s (Id_ref (heap s ! a)) = Some key"
    by (auto simp: content_def)
  then obtain k where k: "Id_ref (heap s ! a) = Some k" "k < length (object_keys s)"
    by (auto simp: key_at_def split: option.splits if_splits)
  have ik: "Id' (content (store_key s' k v) (heap s ! a)) = Some v"
    using k ks by (simp add: content_def key_at_def store_key_def)
  have n1: "map_option Id' (deref (store_key s' k v) r) = Some (Some v)"
    using lr hr ik by (simp add: deref_def store_key_def)
  have "deref (store_key s' k v) a = Some (content (store_key s' k v) (heap s ! a))"
    using la ha by (simp add: deref_def store_key_def)
  with b ik have n2: "map_option Id' (lookup (store_key s' k v) (Value key)) = Some (Some v)"
    by (simp add: lookup_def store_key_def)
  from k(1) hr ha have "Id_ref (heap s' ! r) = Some k" "Id_ref (heap s' ! a) = Some k"
    by simp_all
  with n1 n2 have "\<exists>k. Id_ref (heap s' ! r) = Some k \<and> Id_ref (heap s' ! a) = Some k
                \<and> map_option Id' (deref (store_key s' k v) r) = Some (Some v)
                \<and> map_option Id' (lookup (store_key s' k v) (Value key)) = Some (Some v)"
    by blast
  with c b ne fresh dr l sh w1 w2 show ?thesis by blast
qed

theorem CreateVirtioBlk_stores_pointer_returns_copy_witness:
  "deref server1 0 = Some blk42 \<and> Id' blk42 = Some \<lparr>Value = ''virtio-blk-42''\<rparr>
   \<and> VolumeId blk42 = Some \<lparr>Value = ''Malloc42''\<rparr>
   \<and> BlkCtrls server1 ''virtio-blk-42'' = None
   \<and> snd (Call_bool engine_true server1 ''vhost_create_blk_controller''
           (VhostCreateBlkControllerParams ''virtio-blk-42'' ''Malloc42'')) = Inr True
   \<and> (\<exists>s' r. CreateVirtioBlk engine_true server1 (Some 0) = (s', Inr r)
           \<and> BlkCtrls s' ''virtio-blk-42'' = Some 0
           \<and> r \<noteq> 0 \<and> deref server1 r = None
           \<and> deref s' r = Some blk42 \<and> lookup s' ''virtio-blk-42'' = Some blk42
           \<and> heap s' ! r = heap s' ! 0
           \<and> lookup (store s' 0 obj42') ''virtio-blk-42'' = Some (content s' obj42')
           \<and> deref (store s' 0 obj42') r = Some blk42
           \<and> (\<exists>k. Id_ref (heap s' ! r) = Some k \<and> Id_ref (heap s' ! 0) = Some k
                \<and> map_option Id' (deref (store_key s' k \<lparr>Value = ''other''\<rparr>) r)
                     = Some (Some \<lparr>Value = ''other''\<rparr>)
                \<and> map_option Id' (lookup (store_key s' k \<lparr>Value = ''other''\<rparr>)
                     ''virtio-blk-42'') = Some (Some \<lparr>Value = ''other''\<rparr>)))"
proof -
  let ?s1 = "server1\<lparr>calls := [(''vhost_create_blk_controller'',
        VhostCreateBlkControllerParams ''virtio-blk-42'' ''Malloc42'')]\<rparr>"
  have d: "deref server1 0 = Some blk42"
    by (simp add: deref_def content_def key_at_def endpoint_at_def server1_def obj42_def
        blk42_def)
  have i: "Id' blk42 = Some \<lparr>Value = ''virtio-blk-42''\<rparr>" by (simp add: blk42_def)
  have v: "VolumeId blk42 = Some \<lparr>Value = ''Malloc42''\<rparr>" by (simp add: blk42_def)
  have b: "BlkCtrls server1 (Value \<lparr>Value = ''virtio-blk-42''\<rparr>) = None"
    by (simp add: server1_def)
  have c: "Call_bool engine_true server1 ''vhost_create_blk_controller''
           (VhostCreateBlkControllerParams (Value \<lparr>Value = ''virtio-blk-42''\<rparr>)
              (Value \<lparr>Value = ''Malloc42''\<rparr>)) = (?s1, Inr True)"
    by (simp add: Call_bool_def Call_def engine_true_def server1_def)
  from CreateVirtioBlk_stores_pointer_returns_copy
    [OF d i v b c, of obj42' "\<lparr>Value = ''other''\<rparr>"]
  have "\<exists>s' r. CreateVirtioBlk engine_true server1 (Some 0) = (s', Inr r)
           \<and> BlkCtrls s' ''virtio-blk-42'' = Some 0
           \<and> r \<noteq> 0 \<and> deref server1 r = None
           \<and> deref s' r = Some blk42 \<and> lookup s' ''virtio-blk-42'' = Some blk42
           \<and> heap s' ! r = heap s' ! 0
           \<and> lookup (store s' 0 obj42') ''virtio-blk-42'' = Some (content s' obj42')
           \<and> deref (store s' 0 obj42') r = Some blk42
           \<and> (\<exists>k. Id_ref (heap s' ! r) = Some k \<and> Id_ref (heap s' ! 0) = Some k
                \<and> map_option Id' (deref (store_key s' k \<lparr>Value = ''other''\<rparr>) r)
                     = Some (Some \<lparr>Value = ''other''\<rparr>)
                \<and> map_option Id' (lookup (store_key s' k \<lparr>Value = ''other''\<rparr>)
                     ''virtio-blk-42'') = Some (Some \<lparr>Value = ''other''\<rparr>))"
    by simp
  moreover from c have "snd (Call_bool engine_true server1 ''vhost_create_blk_controller''
           (VhostCreateBlkControllerParams ''virtio-blk-42'' ''Malloc42'')) = Inr True" by simp
  moreover from b have "BlkCtrls server1 ''virtio-blk-42'' = None" by simp
  ultimately show ?thesis using d i v by (intro conjI)
qed

subsection \<open>Delete\<close>

text \<open>
  C7. Delete of an identifier that is absent from the Registry: with \<open>AllowMissing\<close>
  it succeeds and changes nothing; without, it fails with \<open>NotFound\<close> and a message
  naming the identifier. In both cases the state is returned as it was, so the Registry
  is unchanged and no request goes to the engine.
\<close>

theorem DeleteVirtioBlk_absent:
  "BlkCtrls s Name = None \<Longrightarrow>
     DeleteVirtioBlk rpc s Name True = (s, Inr ()) \<and>
     DeleteVirtioBlk rpc s Name False =
       (s, Inl (Status NotFound (''unable to find key '' @ Name)))"
  by (simp add: DeleteVirtioBlk_def)

theorem DeleteVirtioBlk_absent_witness:
  "BlkCtrls server0 ''unknown-id'' = None \<and>
   DeleteVirtioBlk engine_EOF server0 ''unknown-id'' True = (server0, Inr ()) \<and>
   DeleteVirtioBlk engine_EOF server0 ''unknown-id'' False =
     (server0, Inl (Status NotFound ''unable to find key unknown-id''))"
  using DeleteVirtioBlk_absent [of server0 "''unknown-id''" engine_EOF]
  by (simp add: server0_def)

text \<open>
  C4. Delete of a present resource, the Registry key being the identifier of the stored
  object (as Create leaves it). When the engine reply decodes to \<open>false\<close>, the entry is
  removed all the same and the call succeeds. When the gateway reports an error, that
  error is returned and the Registry keeps the entry.
\<close>

theorem DeleteVirtioBlk_engine_signal:
  assumes "BlkCtrls s Name = Some a" and "deref s a = Some blk"
    and "Id' blk = Some \<lparr>Value = Name\<rparr>"
  shows "(Call_bool rpc s ''vhost_delete_controller'' (VhostDeleteControllerParams Name)
            = (s1, Inr False) \<longrightarrow>
          DeleteVirtioBlk rpc s Name AllowMissing
            = (s1\<lparr>BlkCtrls := (BlkCtrls s)(Name := None)\<rparr>, Inr ()))
       \<and> (Call_bool rpc s ''vhost_delete_controller'' (VhostDeleteControllerParams Name)
            = (s1, Inl err) \<longrightarrow>
          DeleteVirtioBlk rpc s Name AllowMissing = (s1, Inl (RpcError err))
          \<and> BlkCtrls s1 = BlkCtrls s)"
proof (intro conjI impI)
  assume c: "Call_bool rpc s ''vhost_delete_controller'' (VhostDeleteControllerParams Name)
            = (s1, Inr False)"
  from Call_bool_state [OF c]
  have "deref s1 a = Some blk" "BlkCtrls s1 = BlkCtrls s" using assms by simp_all
  then show "DeleteVirtioBlk rpc s Name AllowMissing
            = (s1\<lparr>BlkCtrls := (BlkCtrls s)(Name := None)\<rparr>, Inr ())"
    using assms c by (simp add: DeleteVirtioBlk_def)
next
  assume c: "Call_bool rpc s ''vhost_delete_controller'' (VhostDeleteControllerParams Name)
            = (s1, Inl err)"
  then show "DeleteVirtioBlk rpc s Name AllowMissing = (s1, Inl (RpcError err))"
    using assms by (simp add: DeleteVirtioBlk_def)
next
  assume c: "Call_bool rpc s ''vhost_delete_controller'' (VhostDeleteControllerParams Name)
            = (s1, Inl err)"
  from Call_bool_state [OF c] show "BlkCtrls s1 = BlkCtrls s" by simp
qed

theorem DeleteVirtioBlk_engine_signal_witness:
  "BlkCtrls server2 ''virtio-blk-42'' = Some 0 \<and> deref server2 0 = Some blk42
   \<and> Id' blk42 = Some \<lparr>Value = ''virtio-blk-42''\<rparr>
   \<and> snd (Call_bool engine_false server2 ''vhost_delete_controller''
            (VhostDeleteControllerParams ''virtio-blk-42'')) = Inr False
   \<and> snd (DeleteVirtioBlk engine_false server2 ''virtio-blk-42'' False) = Inr ()
   \<and> BlkCtrls (fst (DeleteVirtioBlk engine_false server2 ''virtio-blk-42'' False))
        ''virtio-blk-42'' = None
   \<and> snd (Call_bool engine_EOF server2 ''vhost_delete_controller''
            (VhostDeleteControllerParams ''virtio-blk-42'')) = Inl ''EOF''
   \<and> snd (DeleteVirtioBlk engine_EOF server2 ''virtio-blk-42'' False) = Inl (RpcError ''EOF'')
   \<and> BlkCtrls (fst (DeleteVirtioBlk engine_EOF server2 ''virtio-blk-42'' False))
        ''virtio-blk-42'' = Some 0"
proof -
  let ?q = "(''vhost_delete_controller'', VhostDeleteControllerParams ''virtio-blk-42'')"
  let ?s1 = "server2\<lparr>calls := [?q]\<rparr>"
  have b: "BlkCtrls server2 ''virtio-blk-42'' = Some 0" by (simp add: server2_def)
  have d: "deref server2 0 = Some blk42"
    by (simp add: deref_def content_def key_at_def endpoint_at_def server2_def obj42_def
        blk42_def)
  have i: "Id' blk42 = Some \<lparr>Value = ''virtio-blk-42''\<rparr>" by (simp add: blk42_def)
  have cf: "Call_bool engine_false server2 ''vhost_delete_controller''
            (VhostDeleteControllerParams ''virtio-blk-42'') = (?s1, Inr False)"
    by (simp add: Call_bool_def Call_def engine_false_def server2_def)
  have ce: "Call_bool engine_EOF server2 ''vhost_delete_controller''
            (VhostDeleteControllerParams ''virtio-blk-42'') = (?s1, Inl ''EOF'')"
    by (simp add: Call_bool_def Call_def engine_EOF_def server2_def)
  from DeleteVirtioBlk_engine_signal [OF b d i, of engine_false ?s1 False "''EOF''"] cf
  have f: "DeleteVirtioBlk engine_false server2 ''virtio-blk-42'' False
            = (?s1\<lparr>BlkCtrls := (BlkCtrls server2)(''virtio-blk-42'' := None)\<rparr>, Inr ())"
    by simp
  from DeleteVirtioBlk_engine_signal [OF b d i, of engine_EOF ?s1 False "''EOF''"] ce
  have e: "DeleteVirtioBlk engine_EOF server2 ''virtio-blk-42'' False
            = (?s1, Inl (RpcError ''EOF''))"
    by simp
  show ?thesis using b d i by (simp add: cf ce f e)
qed

text \<open>
  C9. A gateway failure leaves the Registry as it was. When the engine call of Create
  reports an error, Create fails (with the wrapped \<open>ErrFailedSpdkCall\<close>) and adds no
  entry; when the engine call of Delete reports an error, Delete returns that error and
  removes no entry.
\<close>

theorem gateway_failure_keeps_Registry:
  "(deref s a = Some blk \<and> Id' blk = Some key \<and> VolumeId blk = Some vol
      \<and> BlkCtrls s (Value key) = None
      \<and> Call_bool rpc s ''vhost_create_blk_controller''
           (VhostCreateBlkControllerParams (Value key) (Value vol)) = (s1, Inl err) \<longrightarrow>
    CreateVirtioBlk rpc s (Some a) = (s1, Inl (Wrapped ErrFailedSpdkCall))
      \<and> BlkCtrls s1 = BlkCtrls s)
   \<and> (BlkCtrls s Name = Some c
      \<and> Call_bool rpc s ''vhost_delete_controller'' (VhostDeleteControllerParams Name)
           = (s2, Inl err) \<longrightarrow>
    DeleteVirtioBlk rpc s Name AllowMissing = (s2, Inl (RpcError err))
      \<and> BlkCtrls s2 = BlkCtrls s)"
proof (intro conjI impI)
  assume h: "deref s a = Some blk \<and> Id' blk = Some key \<and> VolumeId blk = Some vol
      \<and> BlkCtrls s (Value key) = None
      \<and> Call_bool rpc s ''vhost_create_blk_controller''
           (VhostCreateBlkControllerParams (Value key) (Value vol)) = (s1, Inl err)"
  then show "CreateVirtioBlk rpc s (Some a) = (s1, Inl (Wrapped ErrFailedSpdkCall))"
    by (simp add: CreateVirtioBlk_def)
  from h have "Call_bool rpc s ''vhost_create_blk_controller''
           (VhostCreateBlkControllerParams (Value key) (Value vol)) = (s1, Inl err)" by simp
  from Call_bool_state [OF this] show "BlkCtrls s1 = BlkCtrls s" by simp
next
  assume h: "BlkCtrls s Name = Some c
      \<and> Call_bool rpc s ''vhost_delete_controller'' (VhostDeleteControllerParams Name)
           = (s2, Inl err)"
  then show "DeleteVirtioBlk rpc s Name AllowMissing = (s2, Inl (RpcError err))"
    by (simp add: DeleteVirtioBlk_def)
  from h have "Call_bool rpc s ''vhost_delete_controller'' (VhostDeleteControllerParams Name)
           = (s2, Inl err)" by simp
  from Call_bool_state [OF this] show "BlkCtrls s2 = BlkCtrls s" by simp
qed

theorem gateway_failure_keeps_Registry_witness:
  "deref server1 0 = Some blk42 \<and> Id' blk42 = Some \<lparr>Value = ''virtio-blk-42''\<rparr>
   \<and> VolumeId blk42 = Some \<lparr>Value = ''Malloc42''\<rparr>
   \<and> BlkCtrls server1 ''virtio-blk-42'' = None
   \<and> snd (Call_bool engine_EOF server1 ''vhost_create_blk_controller''
           (VhostCreateBlkControllerParams ''virtio-blk-42'' ''Malloc42'')) = Inl ''EOF''
   \<and> snd (CreateVirtioBlk engine_EOF server1 (Some 0)) = Inl (Wrapped ErrFailedSpdkCall)
   \<and> BlkCtrls (fst (CreateVirtioBlk engine_EOF server1 (Some 0))) = BlkCtrls server1
   \<and> BlkCtrls server2 ''virtio-blk-42'' = Some 0
   \<and> snd (Call_bool engine_EOF server2 ''vhost_delete_controller''
           (VhostDeleteControllerParams ''virtio-blk-42'')) = Inl ''EOF''
   \<and> snd (DeleteVirtioBlk engine_EOF server2 ''virtio-blk-42'' True) = Inl (RpcError ''EOF'')
   \<and> BlkCtrls (fst (DeleteVirtioBlk engine_EOF server2 ''virtio-blk-42'' True))
        = BlkCtrls server2"
proof -
  let ?k = "\<lparr>Value = ''virtio-blk-42''\<rparr>" and ?v = "\<lparr>Value = ''Malloc42''\<rparr>"
  let ?s1 = "server1\<lparr>calls := [(''vhost_create_blk_controller'',
        VhostCreateBlkControllerParams ''virtio-blk-42'' ''Malloc42'')]\<rparr>"
  let ?s2 = "server2\<lparr>calls := [(''vhost_delete_controller'',
        VhostDeleteControllerParams ''virtio-blk-42'')]\<rparr>"
  have d: "deref server1 0 = Some blk42"
    by (simp add: deref_def content_def key_at_def endpoint_at_def server1_def obj42_def
        blk42_def)
  have i: "Id' blk42 = Some ?k" by (simp add: blk42_def)
  have v: "VolumeId blk42 = Some ?v" by (simp add: blk42_def)
  have b1: "BlkCtrls server1 ''virtio-blk-42'' = None" by (simp add: server1_def)
  have b2: "BlkCtrls server2 ''virtio-blk-42'' = Some 0" by (simp add: server2_def)
  have c1: "Call_bool engine_EOF server1 ''vhost_create_blk_controller''
           (VhostCreateBlkControllerParams ''virtio-blk-42'' ''Malloc42'') = (?s1, Inl ''EOF'')"
    by (simp add: Call_bool_def Call_def engine_EOF_def server1_def)
  have c2: "Call_bool engine_EOF server2 ''vhost_delete_controller''
           (VhostDeleteControllerParams ''virtio-blk-42'') = (?s2, Inl ''EOF'')"
    by (simp add: Call_bool_def Call_def engine_EOF_def server2_def)
  from gateway_failure_keeps_Registry
    [of server1 0 blk42 ?k ?v engine_EOF ?s1 "''EOF''" "''virtio-blk-42''" 0 ?s2 True]
    d i v b1 c1
  have 1: "CreateVirtioBlk engine_EOF server1 (Some 0) = (?s1, Inl (Wrapped ErrFailedSpdkCall))"
    and 2: "BlkCtrls ?s1 = BlkCtrls server1" by simp_all
  from gateway_failure_keeps_Registry
    [of server2 0 blk42 ?k ?v engine_EOF ?s1 "''EOF''" "''virtio-blk-42''" 0 ?s2 True]
    b2 c2
  have 3: "DeleteVirtioBlk engine_EOF server2 ''virtio-blk-42'' True = (?s2, Inl (RpcError ''EOF''))"
    and 4: "BlkCtrls ?s2 = BlkCtrls server2" by simp_all
  show ?thesis using d i v b1 b2 by (simp add: c1 c2 1 3)
qed

subsection \<open>The Registry stays keyed by identifier\<close>

text \<open>
  The empty server is keyed, and every operation of the file, as well as an allocation
  by a caller, keeps the server keyed. In a keyed server the entry under a name points
  to an object with that identifier, which is what the theorem on the engine signal of
  Delete assumes.
\<close>

lemma keyed_same:
  assumes "BlkCtrls s' = BlkCtrls s" and "heap s' = heap s"
    and "object_keys s' = object_keys s" and "pci_endpoints s' = pci_endpoints s"
    and "keyed s"
  shows "keyed s'"
  using assms(5) unfolding keyed_def assms(1) deref_heap_same [OF assms(2,3,4)] .

lemma keyed_server0: "keyed server0"
  by (simp add: keyed_def server0_def)

lemma keyed_entry:
  assumes "keyed s" and "BlkCtrls s Name = Some a"
  shows "\<exists>blk. deref s a = Some blk \<and> Id' blk = Some \<lparr>Value = Name\<rparr>"
proof -
  from assms obtain blk key where "deref s a = Some blk" "Id' blk = Some key" "Value key = Name"
    unfolding keyed_def by blast
  moreover from this have "key = \<lparr>Value = Name\<rparr>" by (cases key) simp
  ultimately show ?thesis by simp
qed

lemma keyed_alloc:
  assumes "keyed s"
  shows "keyed (snd (alloc s v))"
  unfolding keyed_def
proof (intro allI impI)
  fix k a assume "BlkCtrls (snd (alloc s v)) k = Some a"
  then have "BlkCtrls s k = Some a" by (simp add: alloc_def)
  with assms obtain blk key where "deref s a = Some blk" "Id' blk = Some key" "Value key = k"
    unfolding keyed_def by blast
  moreover have "heap (snd (alloc s v)) = heap s @ [v]"
    "object_keys (snd (alloc s v)) = object_keys s"
    "pci_endpoints (snd (alloc s v)) = pci_endpoints s" by (simp_all add: alloc_def)
  ultimately show "\<exists>blk key. deref (snd (alloc s v)) a = Some blk \<and> Id' blk = Some key
      \<and> Value key = k"
    using deref_heap_append by blast
qed

lemma keyed_insert:
  assumes "keyed s" and "deref s a = Some blk" and "Id' blk = Some key"
    and "BlkCtrls s' = (BlkCtrls s)(Value key \<mapsto> a)" and "heap s' = heap s @ [w]"
    and "object_keys s' = object_keys s" and "pci_endpoints s' = pci_endpoints s"
  shows "keyed s'"
  unfolding keyed_def
proof (intro allI impI)
  fix k b assume kb: "BlkCtrls s' k = Some b"
  have ext: "deref s' c = Some v" if "deref s c = Some v" for c v
    using assms(5,6,7) that by (rule deref_heap_append)
  show "\<exists>blk key. deref s' b = Some blk \<and> Id' blk = Some key \<and> Value key = k"
  proof (cases "k = Value key")
    case True
    with kb assms(4) have "b = a" by simp
    with ext [OF assms(2)] assms(3) True show ?thesis by auto
  next
    case False
    with kb assms(4) have "BlkCtrls s k = Some b" by simp
    with assms(1) obtain blk' key' where "deref s b = Some blk'" "Id' blk' = Some key'" "Value key' = k"
      unfolding keyed_def by blast
    with ext show ?thesis by blast
  qed
qed

lemma keyed_CreateVirtioBlk:
  assumes "keyed s"
  shows "keyed (fst (CreateVirtioBlk rpc s req))"
proof (cases req)
  case None
  with assms show ?thesis by (simp add: CreateVirtioBlk_def)
next
  case (Some a)
  show ?thesis
  proof (cases "deref s a")
    case None
    with Some assms show ?thesis by (simp add: CreateVirtioBlk_def)
  next
    case blk: (Some blk)
    show ?thesis
    proof (cases "Id' blk")
      case None
      with Some blk assms show ?thesis by (simp add: CreateVirtioBlk_def)
    next
      case key: (Some key)
      show ?thesis
      proof (cases "BlkCtrls s (Value key)")
        case (Some c)
        from CreateVirtioBlk_hit [OF blk key Some] \<open>req = Some a\<close> assms show ?thesis by simp
      next
        case miss: None
        show ?thesis
        proof (cases "VolumeId blk")
          case None
          with Some blk key miss assms show ?thesis by (simp add: CreateVirtioBlk_def)
        next
          case vol: (Some vol)
          obtain s1 res where c: "Call_bool rpc s ''vhost_create_blk_controller''
              (VhostCreateBlkControllerParams (Value key) (Value vol)) = (s1, res)"
            by (cases "Call_bool rpc s ''vhost_create_blk_controller''
              (VhostCreateBlkControllerParams (Value key) (Value vol))")
          from Call_bool_state [OF c] have same: "BlkCtrls s1 = BlkCtrls s" "heap s1 = heap s"
            "object_keys s1 = object_keys s" "pci_endpoints s1 = pci_endpoints s"
            by simp_all
          from keyed_same [OF same assms] have k1: "keyed s1" .
          show ?thesis
          proof (cases "res = Inr True")
            case True
            with c have c': "Call_bool rpc s ''vhost_create_blk_controller''
              (VhostCreateBlkControllerParams (Value key) (Value vol)) = (s1, Inr True)" by simp
            let ?s' = "s1\<lparr>BlkCtrls := (BlkCtrls s)(Value key \<mapsto> a),
                          heap := heap s @ [heap s ! a]\<rparr>"
            have "keyed ?s'" by (rule keyed_insert [OF assms blk key]) (simp_all add: same)
            with CreateVirtioBlk_fresh [OF blk key vol miss c'] \<open>req = Some a\<close>
            show ?thesis by simp
          next
            case False
            then have "fst (CreateVirtioBlk rpc s (Some a)) = s1"
              using blk key miss vol c
              by (cases res) (auto simp: CreateVirtioBlk_def)
            with k1 \<open>req = Some a\<close> show ?thesis by simp
          qed
        qed
      qed
    qed
  qed
qed

lemma keyed_DeleteVirtioBlk:
  assumes "keyed s"
  shows "keyed (fst (DeleteVirtioBlk rpc s Name AllowMissing))"
proof (cases "BlkCtrls s Name")
  case None
  with assms show ?thesis by (simp add: DeleteVirtioBlk_def)
next
  case (Some a)
  obtain s1 res where c: "Call_bool rpc s ''vhost_delete_controller''
      (VhostDeleteControllerParams Name) = (s1, res)"
    by (cases "Call_bool rpc s ''vhost_delete_controller'' (VhostDeleteControllerParams Name)")
  from Call_bool_state [OF c] have same: "BlkCtrls s1 = BlkCtrls s" "heap s1 = heap s"
    "object_keys s1 = object_keys s" "pci_endpoints s1 = pci_endpoints s"
    by simp_all
  from keyed_same [OF same assms] have k1: "keyed s1" .
  from keyed_entry [OF assms Some] obtain blk where
    blk: "deref s a = Some blk" "Id' blk = Some \<lparr>Value = Name\<rparr>" by blast
  with deref_heap_same [OF same(2,3,4)] have d1: "deref s1 a = Some blk" by simp
  show ?thesis
  proof (cases res)
    case (Inl err)
    with Some c k1 show ?thesis by (simp add: DeleteVirtioBlk_def)
  next
    case (Inr b)
    with Some c d1 blk(2)
    have "fst (DeleteVirtioBlk rpc s Name AllowMissing)
            = s1\<lparr>BlkCtrls := (BlkCtrls s1)(Name := None)\<rparr>"
      by (simp add: DeleteVirtioBlk_def)
    moreover have "keyed (s1\<lparr>BlkCtrls := (BlkCtrls s1)(Name := None)\<rparr>)"
      unfolding keyed_def
    proof (intro allI impI)
      fix k c assume "BlkCtrls (s1\<lparr>BlkCtrls := (BlkCtrls s1)(Name := None)\<rparr>) k = Some c"
      then have "BlkCtrls s1 k = Some c" by (simp split: if_splits)
      with k1 obtain blk' key' where "deref s1 c = Some blk'" "Id' blk' = Some key'"
        "Value key' = k" unfolding keyed_def by blast
      then show "\<exists>blk key. deref (s1\<lparr>BlkCtrls := (BlkCtrls s1)(Name := None)\<rparr>) c = Some blk
          \<and> Id' blk = Some key \<and> Value key = k" by simp
    qed
    ultimately show ?thesis by simp
  qed
qed

lemma GetVirtioBlk_registry:
  "BlkCtrls (fst (GetVirtioBlk rpc s Name)) = BlkCtrls s
   \<and> heap (fst (GetVirtioBlk rpc s Name)) = heap s
   \<and> object_keys (fst (GetVirtioBlk rpc s Name)) = object_keys s
   \<and> pci_endpoints (fst (GetVirtioBlk rpc s Name)) = pci_endpoints s"
proof (cases "BlkCtrls s Name")
  case None
  then show ?thesis by (simp add: GetVirtioBlk_def)
next
  case (Some a)
  obtain s1 res where c: "Call_controllers rpc s ''vhost_get_controllers''
      (VhostGetControllersParams Name) = (s1, res)"
    by (cases "Call_controllers rpc s ''vhost_get_controllers'' (VhostGetControllersParams Name)")
  from Call_controllers_state [OF c] have "BlkCtrls s1 = BlkCtrls s" "heap s1 = heap s"
    "object_keys s1 = object_keys s" "pci_endpoints s1 = pci_endpoints s"
    by simp_all
  moreover have "fst (GetVirtioBlk rpc s Name) = s1"
    using Some c by (cases res) (simp_all add: GetVirtioBlk_def)
  ultimately show ?thesis by simp
qed

lemma ListVirtioBlks_registry:
  "BlkCtrls (fst (ListVirtioBlks rpc uuid d s PageSize PageToken)) = BlkCtrls s
   \<and> heap (fst (ListVirtioBlks rpc uuid d s PageSize PageToken)) = heap s
   \<and> object_keys (fst (ListVirtioBlks rpc uuid d s PageSize PageToken)) = object_keys s
   \<and> pci_endpoints (fst (ListVirtioBlks rpc uuid d s PageSize PageToken)) = pci_endpoints s"
proof (cases "ExtractPagination d PageSize PageToken (Pagination s)")
  case (Inl perr)
  then show ?thesis by (simp add: ListVirtioBlks_def)
next
  case (Inr so)
  obtain size' offset where so: "so = (size', offset)" by (cases so)
  obtain s1 res where c: "Call_controllers rpc s ''vhost_get_controllers'' NoParams = (s1, res)"
    by (cases "Call_controllers rpc s ''vhost_get_controllers'' NoParams")
  from Call_controllers_state [OF c] have same: "BlkCtrls s1 = BlkCtrls s" "heap s1 = heap s"
    "object_keys s1 = object_keys s" "pci_endpoints s1 = pci_endpoints s"
    by simp_all
  show ?thesis
  proof (cases res)
    case (Inl err)
    with Inr so c same show ?thesis by (simp add: ListVirtioBlks_def)
  next
    case result: (Inr result)
    show ?thesis
    proof (cases "LimitPagination result offset size'")
      case None
      with Inr so c result same show ?thesis by (simp add: ListVirtioBlks_def)
    next
      case (Some ph)
      obtain page hasMore where "ph = (page, hasMore)" by (cases ph)
      with Some Inr so c result same show ?thesis
        by (cases hasMore) (simp_all add: ListVirtioBlks_def)
    qed
  qed
qed

lemma keyed_GetVirtioBlk: "keyed s \<Longrightarrow> keyed (fst (GetVirtioBlk rpc s Name))"
  using GetVirtioBlk_registry [of rpc s Name] by (blast intro: keyed_same)

lemma keyed_ListVirtioBlks:
  "keyed s \<Longrightarrow> keyed (fst (ListVirtioBlks rpc uuid d s PageSize PageToken))"
  using ListVirtioBlks_registry [of rpc uuid d s PageSize PageToken]
  by (blast intro: keyed_same)

subsection \<open>Get\<close>

text \<open>
  C3. Get of an identifier that is absent from the Registry: the source answers with
  \<open>InvalidArgument\<close> and the message "Could not find Controller: ...", where the
  claim, Delete in the same file and the Get tests of the other resource kinds have
  \<open>NotFound\<close>. The run below is on the empty server.
\<close>

theorem GetVirtioBlk_absent_InvalidArgument:
  "GetVirtioBlk engine_one server0 ''unknown-id'' =
     (server0, Inl (Status InvalidArgument ''Could not find Controller: unknown-id''))"
  by (simp add: GetVirtioBlk_def server0_def)

text \<open>
  The general form of that answer, and the other half of the claim: with the identifier
  present the engine is asked, and a reply of any length but one fails with
  \<open>InvalidArgument\<close>.
\<close>

lemma GetVirtioBlk_missing_key:
  "BlkCtrls s Name = None \<Longrightarrow>
     GetVirtioBlk rpc s Name =
       (s, Inl (Status InvalidArgument (''Could not find Controller: '' @ Name)))"
  by (simp add: GetVirtioBlk_def)

lemma GetVirtioBlk_not_one:
  assumes "BlkCtrls s Name = Some a"
    and "Call_controllers rpc s ''vhost_get_controllers'' (VhostGetControllersParams Name)
           = (s1, Inr result)"
    and "length result \<noteq> 1"
  shows "GetVirtioBlk rpc s Name =
           (s1, Inl (Status InvalidArgument
                  (''expecting exactly 1 result, got '' @ string_of_nat (length result))))"
  using assms by (simp add: GetVirtioBlk_def)

subsection \<open>List\<close>

lemma LimitPagination_more:
  assumes "0 \<le> offset" and "0 \<le> size'" and "offset + size' < int (length result)"
  shows "LimitPagination result offset size' =
           Some (take (nat size') (drop (nat offset) result), True)"
  using assms by (simp add: LimitPagination_def slice_def)

lemma LimitPagination_last:
  assumes "0 \<le> offset" and "offset \<le> int (length result)"
    and "\<not> offset + size' < int (length result)"
  shows "LimitPagination result offset size' =
           Some (take (nat size') (drop (nat offset) result), False)"
proof -
  from assms have "length (drop (nat offset) result) \<le> nat size'" by simp
  then have "take (nat size') (drop (nat offset) result) = drop (nat offset) result"
    by simp
  moreover have "take (nat (int (length result) - offset)) (drop (nat offset) result)
                   = drop (nat offset) result"
    using assms by simp
  ultimately show ?thesis using assms by (simp add: LimitPagination_def slice_def)
qed

lemma LimitPagination_subset:
  "LimitPagination result offset size' = Some (page, hasMore) \<Longrightarrow> set page \<subseteq> set result"
  by (auto simp: LimitPagination_def slice_def split: if_splits
      dest!: in_set_takeD in_set_dropD)

text \<open>
  C5. List validates the pagination parameters before it calls the engine. A negative
  page size fails with \<open>InvalidArgument\<close> and the message "negative PageSize is not
  allowed"; with a page size that is not negative, a page token that the cursor map
  does not know fails with \<open>NotFound\<close> and a message naming the token. In both
  cases the state is returned as it was, so no request went to the engine.
\<close>

theorem ListVirtioBlks_validates_first:
  "(PageSize < 0 \<longrightarrow>
      ListVirtioBlks rpc uuid d s PageSize PageToken =
        (s, Inl (Status InvalidArgument ''negative PageSize is not allowed'')))
   \<and> (0 \<le> PageSize \<and> PageToken \<noteq> [] \<and> Pagination s PageToken = None \<longrightarrow>
      ListVirtioBlks rpc uuid d s PageSize PageToken =
        (s, Inl (Status NotFound (''unable to find pagination token '' @ PageToken))))"
  by (simp add: ListVirtioBlks_def ExtractPagination_def Let_def)

theorem ListVirtioBlks_validates_first_witness:
  "(-10::int) < 0
   \<and> ListVirtioBlks engine_three ''tok'' 50 server2 (-10) [] =
        (server2, Inl (Status InvalidArgument ''negative PageSize is not allowed''))
   \<and> (0::int) \<le> 0 \<and> ''unknown-pagination-token'' \<noteq> []
   \<and> Pagination server2 ''unknown-pagination-token'' = None
   \<and> ListVirtioBlks engine_three ''tok'' 50 server2 0 ''unknown-pagination-token'' =
        (server2, Inl (Status NotFound ''unable to find pagination token unknown-pagination-token''))
   \<and> calls server2 = []"
proof -
  have p: "Pagination server2 ''unknown-pagination-token'' = None" by (simp add: server2_def)
  have c: "calls server2 = []" by (simp add: server2_def)
  from ListVirtioBlks_validates_first [of "-10" engine_three "''tok''" 50 server2 "[]"]
  have 1: "ListVirtioBlks engine_three ''tok'' 50 server2 (-10) [] =
        (server2, Inl (Status InvalidArgument ''negative PageSize is not allowed''))" by simp
  from ListVirtioBlks_validates_first
    [of 0 engine_three "''tok''" 50 server2 "''unknown-pagination-token''"] p
  have 2: "ListVirtioBlks engine_three ''tok'' 50 server2 0 ''unknown-pagination-token'' =
        (server2, Inl (Status NotFound ''unable to find pagination token unknown-pagination-token''))"
    by simp
  show ?thesis using p c 1 2 by simp
qed

text \<open>
  Offsets and sizes are not negative. The empty server has no cursor; with a default
  page size that is not negative, every operation of the file keeps the cursors
  non-negative, and the size and offset that List resolves are then not negative
  either. What is not an invariant is that a cursor stays inside the engine list.
\<close>

lemma nonneg_cursors_server0: "nonneg_cursors server0"
  by (simp add: nonneg_cursors_def server0_def)

lemma nonneg_cursors_same: "Pagination s' = Pagination s \<Longrightarrow> nonneg_cursors s \<Longrightarrow> nonneg_cursors s'"
  by (simp add: nonneg_cursors_def)

lemma ExtractPagination_nonneg:
  assumes "nonneg_cursors s" and "0 \<le> d"
    and "ExtractPagination d PageSize PageToken (Pagination s) = Inr (size', offset)"
  shows "0 \<le> size' \<and> 0 \<le> offset"
proof -
  from assms(3) have ps: "\<not> PageSize < 0"
    by (auto simp: ExtractPagination_def split: if_splits)
  with assms(3) have sz: "size' = (if PageSize = 0 then d else PageSize)"
    by (auto simp: ExtractPagination_def Let_def split: if_splits option.splits)
  from assms(3) ps have "offset = 0 \<or> Pagination s PageToken = Some offset"
    by (auto simp: ExtractPagination_def Let_def split: if_splits option.splits)
  with assms(1) have "0 \<le> offset" by (auto simp: nonneg_cursors_def)
  with sz ps assms(2) show ?thesis by auto
qed

lemma ListVirtioBlks_Pagination:
  assumes "ExtractPagination d PageSize PageToken (Pagination s) = Inr (size', offset)"
  shows "Pagination (fst (ListVirtioBlks rpc uuid d s PageSize PageToken)) = Pagination s
       \<or> Pagination (fst (ListVirtioBlks rpc uuid d s PageSize PageToken))
            = (Pagination s)(uuid \<mapsto> offset + size')"
proof -
  obtain s1 res where c: "Call_controllers rpc s ''vhost_get_controllers'' NoParams = (s1, res)"
    by (cases "Call_controllers rpc s ''vhost_get_controllers'' NoParams")
  from Call_controllers_state [OF c] have p: "Pagination s1 = Pagination s" by simp
  show ?thesis
  proof (cases res)
    case (Inl err)
    with assms c p show ?thesis by (simp add: ListVirtioBlks_def)
  next
    case result: (Inr result)
    show ?thesis
    proof (cases "LimitPagination result offset size'")
      case None
      with assms c result p show ?thesis by (simp add: ListVirtioBlks_def)
    next
      case (Some ph)
      obtain page hasMore where "ph = (page, hasMore)" by (cases ph)
      with Some assms c result p show ?thesis
        by (cases hasMore) (simp_all add: ListVirtioBlks_def)
    qed
  qed
qed

lemma nonneg_cursors_ListVirtioBlks:
  assumes "nonneg_cursors s" and "0 \<le> d"
  shows "nonneg_cursors (fst (ListVirtioBlks rpc uuid d s PageSize PageToken))"
proof (cases "ExtractPagination d PageSize PageToken (Pagination s)")
  case (Inl perr)
  with assms(1) show ?thesis by (simp add: ListVirtioBlks_def)
next
  case (Inr so)
  obtain size' offset where so: "so = (size', offset)" by (cases so)
  with Inr have e: "ExtractPagination d PageSize PageToken (Pagination s) = Inr (size', offset)"
    by simp
  from ExtractPagination_nonneg [OF assms e] have n: "0 \<le> offset + size'" by simp
  from ListVirtioBlks_Pagination [OF e, of rpc uuid]
  show ?thesis
  proof
    assume "Pagination (fst (ListVirtioBlks rpc uuid d s PageSize PageToken)) = Pagination s"
    then show ?thesis using assms(1) by (rule nonneg_cursors_same)
  next
    assume "Pagination (fst (ListVirtioBlks rpc uuid d s PageSize PageToken))
            = (Pagination s)(uuid \<mapsto> offset + size')"
    with assms(1) n show ?thesis by (auto simp: nonneg_cursors_def split: if_splits)
  qed
qed

lemma GetVirtioBlk_Pagination: "Pagination (fst (GetVirtioBlk rpc s Name)) = Pagination s"
proof (cases "BlkCtrls s Name")
  case None
  then show ?thesis by (simp add: GetVirtioBlk_def)
next
  case (Some a)
  obtain s1 res where c: "Call_controllers rpc s ''vhost_get_controllers''
      (VhostGetControllersParams Name) = (s1, res)"
    by (cases "Call_controllers rpc s ''vhost_get_controllers'' (VhostGetControllersParams Name)")
  from Call_controllers_state [OF c] have "Pagination s1 = Pagination s" by simp
  moreover have "fst (GetVirtioBlk rpc s Name) = s1"
    using Some c by (cases res) (simp_all add: GetVirtioBlk_def)
  ultimately show ?thesis by simp
qed

lemma DeleteVirtioBlk_Pagination:
  "Pagination (fst (DeleteVirtioBlk rpc s Name AllowMissing)) = Pagination s"
proof (cases "BlkCtrls s Name")
  case None
  then show ?thesis by (simp add: DeleteVirtioBlk_def)
next
  case (Some a)
  obtain s1 res where c: "Call_bool rpc s ''vhost_delete_controller''
      (VhostDeleteControllerParams Name) = (s1, res)"
    by (cases "Call_bool rpc s ''vhost_delete_controller'' (VhostDeleteControllerParams Name)")
  from Call_bool_state [OF c] have p: "Pagination s1 = Pagination s" by simp
  show ?thesis
  proof (cases res)
    case (Inl err)
    with Some c p show ?thesis by (simp add: DeleteVirtioBlk_def)
  next
    case (Inr b)
    with Some c p show ?thesis
      by (simp add: DeleteVirtioBlk_def split: option.splits)
  qed
qed

lemma CreateVirtioBlk_Pagination:
  "Pagination (fst (CreateVirtioBlk rpc s req)) = Pagination s"
proof (cases req)
  case None
  then show ?thesis by (simp add: CreateVirtioBlk_def)
next
  case (Some a)
  show ?thesis
  proof (cases "deref s a")
    case None
    with Some show ?thesis by (simp add: CreateVirtioBlk_def)
  next
    case blk: (Some blk)
    show ?thesis
    proof (cases "Id' blk")
      case None
      with Some blk show ?thesis by (simp add: CreateVirtioBlk_def)
    next
      case key: (Some key)
      show ?thesis
      proof (cases "BlkCtrls s (Value key)")
        case (Some c)
        from CreateVirtioBlk_hit [OF blk key Some] \<open>req = Some a\<close> show ?thesis by simp
      next
        case miss: None
        show ?thesis
        proof (cases "VolumeId blk")
          case None
          with Some blk key miss show ?thesis by (simp add: CreateVirtioBlk_def)
        next
          case vol: (Some vol)
          obtain s1 res where c: "Call_bool rpc s ''vhost_create_blk_controller''
              (VhostCreateBlkControllerParams (Value key) (Value vol)) = (s1, res)"
            by (cases "Call_bool rpc s ''vhost_create_blk_controller''
              (VhostCreateBlkControllerParams (Value key) (Value vol))")
          from Call_bool_state [OF c] have p: "Pagination s1 = Pagination s" by simp
          show ?thesis
          proof (cases "res = Inr True")
            case True
            with c have c': "Call_bool rpc s ''vhost_create_blk_controller''
              (VhostCreateBlkControllerParams (Value key) (Value vol)) = (s1, Inr True)" by simp
            from CreateVirtioBlk_fresh [OF blk key vol miss c'] \<open>req = Some a\<close> p
            show ?thesis by simp
          next
            case False
            then have "fst (CreateVirtioBlk rpc s (Some a)) = s1"
              using blk key miss vol c
              by (cases res) (auto simp: CreateVirtioBlk_def)
            with p \<open>req = Some a\<close> show ?thesis by simp
          qed
        qed
      qed
    qed
  qed
qed

lemma nonneg_cursors_CreateVirtioBlk:
  "nonneg_cursors s \<Longrightarrow> nonneg_cursors (fst (CreateVirtioBlk rpc s req))"
  using CreateVirtioBlk_Pagination by (rule nonneg_cursors_same)

lemma nonneg_cursors_DeleteVirtioBlk:
  "nonneg_cursors s \<Longrightarrow> nonneg_cursors (fst (DeleteVirtioBlk rpc s Name AllowMissing))"
  using DeleteVirtioBlk_Pagination by (rule nonneg_cursors_same)

lemma nonneg_cursors_GetVirtioBlk:
  "nonneg_cursors s \<Longrightarrow> nonneg_cursors (fst (GetVirtioBlk rpc s Name))"
  using GetVirtioBlk_Pagination by (rule nonneg_cursors_same)

text \<open>
  C6, as the claim states it, fails for a resolved offset beyond the engine list. Below,
  a first List over five controllers with page size 3 mints the cursor \<open>tok\<close> for offset
  3; the engine list then shrinks to two controllers, and List with that cursor ends in
  a panic after its engine request instead of returning a slice.
\<close>

theorem ListVirtioBlks_stale_cursor_panics:
  "snd (ListVirtioBlks engine_shrinking ''tok'' 50 server0 3 []) =
     Inr \<lparr>VirtioBlks = [shape \<lparr>Ctrlr = ''VblkEmu0pf0''\<rparr>, shape \<lparr>Ctrlr = ''VblkEmu0pf1''\<rparr>,
            shape \<lparr>Ctrlr = ''VblkEmu0pf2''\<rparr>], NextPageToken = ''tok''\<rparr>
   \<and> Pagination (fst (ListVirtioBlks engine_shrinking ''tok'' 50 server0 3 [])) ''tok'' = Some 3
   \<and> snd (ListVirtioBlks engine_shrinking ''next'' 50
            (fst (ListVirtioBlks engine_shrinking ''tok'' 50 server0 3 [])) 3 ''tok'') = Inl Panic
   \<and> calls (fst (ListVirtioBlks engine_shrinking ''next'' 50
            (fst (ListVirtioBlks engine_shrinking ''tok'' 50 server0 3 [])) 3 ''tok''))
         = [(''vhost_get_controllers'', NoParams), (''vhost_get_controllers'', NoParams)]"
proof -
  let ?s1 = "server0\<lparr>calls := [(''vhost_get_controllers'', NoParams)],
                     Pagination := [''tok'' \<mapsto> 3]\<rparr>"
  let ?s2 = "?s1\<lparr>calls := [(''vhost_get_controllers'', NoParams),
                          (''vhost_get_controllers'', NoParams)]\<rparr>"
  have 1: "ListVirtioBlks engine_shrinking ''tok'' 50 server0 3 [] =
     (?s1, Inr \<lparr>VirtioBlks = [shape \<lparr>Ctrlr = ''VblkEmu0pf0''\<rparr>, shape \<lparr>Ctrlr = ''VblkEmu0pf1''\<rparr>,
            shape \<lparr>Ctrlr = ''VblkEmu0pf2''\<rparr>], NextPageToken = ''tok''\<rparr>)"
    by (simp add: ListVirtioBlks_def ExtractPagination_def Call_controllers_def Call_def
        engine_shrinking_def LimitPagination_def slice_def server0_def)
  have 2: "ListVirtioBlks engine_shrinking ''next'' 50 ?s1 3 ''tok'' = (?s2, Inl Panic)"
    by (simp add: ListVirtioBlks_def ExtractPagination_def Call_controllers_def Call_def
        engine_shrinking_def LimitPagination_def slice_def server0_def)
  show ?thesis unfolding 1 fst_conv snd_conv 2 by simp
qed

text \<open>
  C6, amended. With the engine reply \<open>result\<close> and a resolved offset that is not beyond
  its end (offset and size not being negative, as the invariant above gives), List
  sends one request to the engine and returns the records
  \<open>[offset : offset + size']\<close> of the reply, stopping at its end, each with the controller
  name as identifier and the two placeholders. The token is the string the generator
  yields, which is not empty and not yet a cursor. When records remain beyond the page,
  that token is returned as \<open>NextPageToken\<close> and the cursor map gains exactly the entry
  from it to \<open>offset + size'\<close>, every earlier cursor keeping its offset. Otherwise, also
  when the page ends exactly at the end of the reply, \<open>NextPageToken\<close> is empty and the
  cursor map is unchanged.
\<close>

theorem ListVirtioBlks_page:
  assumes "ExtractPagination d PageSize PageToken (Pagination s) = Inr (size', offset)"
    and "Call_controllers rpc s ''vhost_get_controllers'' NoParams = (s1, Inr result)"
    and "0 \<le> offset" and "offset \<le> int (length result)" and "0 \<le> size'"
    and "uuid \<noteq> []" and "Pagination s uuid = None"
  shows "\<exists>s' resp. ListVirtioBlks rpc uuid d s PageSize PageToken = (s', Inr resp)
           \<and> calls s' = calls s @ [(''vhost_get_controllers'', NoParams)]
           \<and> VirtioBlks resp =
                map (\<lambda>r. \<lparr>Id' = Some \<lparr>Value = Ctrlr r\<rparr>,
                           PcieId = Some \<lparr>PhysicalFunction = 1, VirtualFunction = 0\<rparr>,
                           VolumeId = Some \<lparr>Value = ''TBD''\<rparr>\<rparr>)
                    (take (nat size') (drop (nat offset) result))
           \<and> (if offset + size' < int (length result)
               then NextPageToken resp = uuid \<and> NextPageToken resp \<noteq> []
                    \<and> Pagination s' = (Pagination s)(uuid \<mapsto> offset + size')
                    \<and> (\<forall>t \<in> dom (Pagination s). Pagination s' t = Pagination s t)
               else NextPageToken resp = [] \<and> Pagination s' = Pagination s)"
proof -
  let ?page = "take (nat size') (drop (nat offset) result)"
  from Call_controllers_state [OF assms(2)]
  have p: "Pagination s1 = Pagination s"
    and c: "calls s1 = calls s @ [(''vhost_get_controllers'', NoParams)]" by simp_all
  have sh: "map shape ?page =
                map (\<lambda>r. \<lparr>Id' = Some \<lparr>Value = Ctrlr r\<rparr>,
                           PcieId = Some \<lparr>PhysicalFunction = 1, VirtualFunction = 0\<rparr>,
                           VolumeId = Some \<lparr>Value = ''TBD''\<rparr>\<rparr>) ?page"
    by (simp add: shape_def)
  show ?thesis
  proof (cases "offset + size' < int (length result)")
    case True
    let ?s' = "s1\<lparr>Pagination := (Pagination s)(uuid \<mapsto> offset + size')\<rparr>"
    let ?resp = "\<lparr>VirtioBlks = map shape ?page, NextPageToken = uuid\<rparr>"
    from LimitPagination_more [OF assms(3,5) True] assms(1,2) p
    have l: "ListVirtioBlks rpc uuid d s PageSize PageToken = (?s', Inr ?resp)"
      by (simp add: ListVirtioBlks_def)
    have k: "\<forall>t \<in> dom (Pagination s). Pagination ?s' t = Pagination s t"
      using assms(7) by auto
    have "calls ?s' = calls s @ [(''vhost_get_controllers'', NoParams)]" using c by simp
    moreover have "VirtioBlks ?resp =
                map (\<lambda>r. \<lparr>Id' = Some \<lparr>Value = Ctrlr r\<rparr>,
                           PcieId = Some \<lparr>PhysicalFunction = 1, VirtualFunction = 0\<rparr>,
                           VolumeId = Some \<lparr>Value = ''TBD''\<rparr>\<rparr>) ?page"
      using sh by simp
    moreover have "NextPageToken ?resp = uuid \<and> NextPageToken ?resp \<noteq> []
                    \<and> Pagination ?s' = (Pagination s)(uuid \<mapsto> offset + size')
                    \<and> (\<forall>t \<in> dom (Pagination s). Pagination ?s' t = Pagination s t)"
      using assms(6) k by simp
    ultimately show ?thesis using l True by (intro exI [of _ ?s'] exI [of _ ?resp]) simp
  next
    case False
    let ?resp = "\<lparr>VirtioBlks = map shape ?page, NextPageToken = []\<rparr>"
    from LimitPagination_last [OF assms(3,4) False] assms(1,2)
    have l: "ListVirtioBlks rpc uuid d s PageSize PageToken = (s1, Inr ?resp)"
      by (simp add: ListVirtioBlks_def)
    have "VirtioBlks ?resp =
                map (\<lambda>r. \<lparr>Id' = Some \<lparr>Value = Ctrlr r\<rparr>,
                           PcieId = Some \<lparr>PhysicalFunction = 1, VirtualFunction = 0\<rparr>,
                           VolumeId = Some \<lparr>Value = ''TBD''\<rparr>\<rparr>) ?page"
      using sh by simp
    moreover have "NextPageToken ?resp = [] \<and> Pagination s1 = Pagination s" using p by simp
    ultimately show ?thesis using l c False by (intro exI [of _ s1] exI [of _ ?resp]) simp
  qed
qed

theorem ListVirtioBlks_page_witness:
  "ExtractPagination 50 1 [] (Pagination server2) = Inr (1, 0)
   \<and> ExtractPagination 50 1 ''existing-pagination-token'' (Pagination server2) = Inr (1, 2)
   \<and> snd (Call_controllers engine_three server2 ''vhost_get_controllers'' NoParams) =
        Inr [\<lparr>Ctrlr = ''VblkEmu0pf0''\<rparr>, \<lparr>Ctrlr = ''VblkEmu0pf2''\<rparr>, \<lparr>Ctrlr = ''VblkEmu0pf3''\<rparr>]
   \<and> ''tok'' \<noteq> [] \<and> Pagination server2 ''tok'' = None
   \<and> (\<exists>s' resp. ListVirtioBlks engine_three ''tok'' 50 server2 1 [] = (s', Inr resp)
        \<and> calls s' = [(''vhost_get_controllers'', NoParams)]
        \<and> VirtioBlks resp =
             [\<lparr>Id' = Some \<lparr>Value = ''VblkEmu0pf0''\<rparr>,
               PcieId = Some \<lparr>PhysicalFunction = 1, VirtualFunction = 0\<rparr>,
               VolumeId = Some \<lparr>Value = ''TBD''\<rparr>\<rparr>]
        \<and> NextPageToken resp = ''tok''
        \<and> Pagination s' ''tok'' = Some 1
        \<and> Pagination s' ''existing-pagination-token'' = Some 2)
   \<and> (\<exists>s' resp. ListVirtioBlks engine_three ''tok'' 50 server2 1
                    ''existing-pagination-token'' = (s', Inr resp)
        \<and> calls s' = [(''vhost_get_controllers'', NoParams)]
        \<and> VirtioBlks resp =
             [\<lparr>Id' = Some \<lparr>Value = ''VblkEmu0pf3''\<rparr>,
               PcieId = Some \<lparr>PhysicalFunction = 1, VirtualFunction = 0\<rparr>,
               VolumeId = Some \<lparr>Value = ''TBD''\<rparr>\<rparr>]
        \<and> NextPageToken resp = []
        \<and> Pagination s' = Pagination server2)"
proof -
  let ?rs = "[\<lparr>Ctrlr = ''VblkEmu0pf0''\<rparr>, \<lparr>Ctrlr = ''VblkEmu0pf2''\<rparr>, \<lparr>Ctrlr = ''VblkEmu0pf3''\<rparr>]"
  let ?s1 = "server2\<lparr>calls := [(''vhost_get_controllers'', NoParams)]\<rparr>"
  have e1: "ExtractPagination 50 1 [] (Pagination server2) = Inr (1, 0)"
    by (simp add: ExtractPagination_def)
  have e2: "ExtractPagination 50 1 ''existing-pagination-token'' (Pagination server2) = Inr (1, 2)"
    by (simp add: ExtractPagination_def server2_def)
  have c: "Call_controllers engine_three server2 ''vhost_get_controllers'' NoParams = (?s1, Inr ?rs)"
    by (simp add: Call_controllers_def Call_def engine_three_def server2_def)
  have n: "''tok'' \<noteq> []" by simp
  have f: "Pagination server2 ''tok'' = None" by (simp add: server2_def)
  have cs: "calls server2 = []" by (simp add: server2_def)
  have ex: "Pagination server2 ''existing-pagination-token'' = Some 2" by (simp add: server2_def)
  from ListVirtioBlks_page [OF e1 c _ _ _ n f]
  obtain s' resp where 1: "ListVirtioBlks engine_three ''tok'' 50 server2 1 [] = (s', Inr resp)"
    "calls s' = calls server2 @ [(''vhost_get_controllers'', NoParams)]"
    "VirtioBlks resp =
             [\<lparr>Id' = Some \<lparr>Value = ''VblkEmu0pf0''\<rparr>,
               PcieId = Some \<lparr>PhysicalFunction = 1, VirtualFunction = 0\<rparr>,
               VolumeId = Some \<lparr>Value = ''TBD''\<rparr>\<rparr>]"
    "NextPageToken resp = ''tok''"
    "Pagination s' = (Pagination server2)(''tok'' \<mapsto> 1)"
    by fastforce
  from ListVirtioBlks_page [OF e2 c _ _ _ n f]
  obtain s'' resp' where 2: "ListVirtioBlks engine_three ''tok'' 50 server2 1
                    ''existing-pagination-token'' = (s'', Inr resp')"
    "calls s'' = calls server2 @ [(''vhost_get_controllers'', NoParams)]"
    "VirtioBlks resp' =
             [\<lparr>Id' = Some \<lparr>Value = ''VblkEmu0pf3''\<rparr>,
               PcieId = Some \<lparr>PhysicalFunction = 1, VirtualFunction = 0\<rparr>,
               VolumeId = Some \<lparr>Value = ''TBD''\<rparr>\<rparr>]"
    "NextPageToken resp' = []"
    "Pagination s'' = Pagination server2"
    by fastforce
  from 1 cs ex have A: "\<exists>s' resp. ListVirtioBlks engine_three ''tok'' 50 server2 1 [] = (s', Inr resp)
        \<and> calls s' = [(''vhost_get_controllers'', NoParams)]
        \<and> VirtioBlks resp =
             [\<lparr>Id' = Some \<lparr>Value = ''VblkEmu0pf0''\<rparr>,
               PcieId = Some \<lparr>PhysicalFunction = 1, VirtualFunction = 0\<rparr>,
               VolumeId = Some \<lparr>Value = ''TBD''\<rparr>\<rparr>]
        \<and> NextPageToken resp = ''tok''
        \<and> Pagination s' ''tok'' = Some 1
        \<and> Pagination s' ''existing-pagination-token'' = Some 2"
    by (intro exI [of _ s'] exI [of _ resp]) simp
  from 2 cs have B: "\<exists>s' resp. ListVirtioBlks engine_three ''tok'' 50 server2 1
                    ''existing-pagination-token'' = (s', Inr resp)
        \<and> calls s' = [(''vhost_get_controllers'', NoParams)]
        \<and> VirtioBlks resp =
             [\<lparr>Id' = Some \<lparr>Value = ''VblkEmu0pf3''\<rparr>,
               PcieId = Some \<lparr>PhysicalFunction = 1, VirtualFunction = 0\<rparr>,
               VolumeId = Some \<lparr>Value = ''TBD''\<rparr>\<rparr>]
        \<and> NextPageToken resp = []
        \<and> Pagination s' = Pagination server2"
    by (intro exI [of _ s''] exI [of _ resp']) simp
  from c have c': "snd (Call_controllers engine_three server2 ''vhost_get_controllers'' NoParams) =
        Inr ?rs" by simp
  from e1 e2 c' n f A B show ?thesis by (intro conjI)
qed

lemma ListVirtioBlks_shape:
  assumes "ListVirtioBlks rpc uuid d s PageSize PageToken = (s', Inr resp)"
  shows "\<exists>s1 result. Call_controllers rpc s ''vhost_get_controllers'' NoParams = (s1, Inr result)
           \<and> (\<forall>b \<in> set (VirtioBlks resp). \<exists>r \<in> set result. b = shape r)"
proof -
  obtain size' offset where e: "ExtractPagination d PageSize PageToken (Pagination s) = Inr (size', offset)"
    using assms by (cases "ExtractPagination d PageSize PageToken (Pagination s)")
      (auto simp: ListVirtioBlks_def)
  obtain s1 res where c: "Call_controllers rpc s ''vhost_get_controllers'' NoParams = (s1, res)"
    by (cases "Call_controllers rpc s ''vhost_get_controllers'' NoParams")
  obtain result where r: "res = Inr result"
    using assms e c by (cases res) (auto simp: ListVirtioBlks_def)
  obtain page hasMore where l: "LimitPagination result offset size' = Some (page, hasMore)"
    using assms e c r by (cases "LimitPagination result offset size'")
      (auto simp: ListVirtioBlks_def)
  from assms e c r l have "VirtioBlks resp = map shape page"
    by (auto simp: ListVirtioBlks_def split: if_splits)
  with LimitPagination_subset [OF l] c r show ?thesis by auto
qed

lemma GetVirtioBlk_shape:
  assumes "GetVirtioBlk rpc s Name = (s', Inr b)"
  shows "\<exists>s1 r. Call_controllers rpc s ''vhost_get_controllers''
                   (VhostGetControllersParams Name) = (s1, Inr [r]) \<and> b = shape r"
proof -
  from assms obtain a where a: "BlkCtrls s Name = Some a"
    by (cases "BlkCtrls s Name") (auto simp: GetVirtioBlk_def)
  obtain s1 res where c: "Call_controllers rpc s ''vhost_get_controllers''
      (VhostGetControllersParams Name) = (s1, res)"
    by (cases "Call_controllers rpc s ''vhost_get_controllers'' (VhostGetControllersParams Name)")
  obtain result where r: "res = Inr result"
    using assms a c by (cases res) (auto simp: GetVirtioBlk_def)
  from assms a c r have l: "length result = 1" and b: "b = shape (result ! 0)"
    by (auto simp: GetVirtioBlk_def split: if_splits)
  from l obtain x where "result = [x]" by (cases result) auto
  with b c r show ?thesis by simp
qed

text \<open>
  C10. Every object that List or Get returns has \<open>PhysicalFunction\<close> 1 and the
  volume identifier "TBD", whatever the engine replied and whatever the Registry stores;
  its identifier is the controller name of a record of the engine reply.
\<close>

theorem List_Get_placeholders:
  "(ListVirtioBlks rpc uuid d s PageSize PageToken = (s', Inr resp) \<longrightarrow>
      (\<exists>result. snd (Call_controllers rpc s ''vhost_get_controllers'' NoParams) = Inr result
         \<and> (\<forall>b \<in> set (VirtioBlks resp).
              PcieId b = Some \<lparr>PhysicalFunction = 1, VirtualFunction = 0\<rparr>
              \<and> VolumeId b = Some \<lparr>Value = ''TBD''\<rparr>
              \<and> (\<exists>r \<in> set result. Id' b = Some \<lparr>Value = Ctrlr r\<rparr>))))
   \<and> (GetVirtioBlk rpc s Name = (s'', Inr blk) \<longrightarrow>
      PcieId blk = Some \<lparr>PhysicalFunction = 1, VirtualFunction = 0\<rparr>
      \<and> VolumeId blk = Some \<lparr>Value = ''TBD''\<rparr>
      \<and> (\<exists>r. snd (Call_controllers rpc s ''vhost_get_controllers''
                     (VhostGetControllersParams Name)) = Inr [r]
             \<and> Id' blk = Some \<lparr>Value = Ctrlr r\<rparr>))"
proof (intro conjI impI)
  assume "ListVirtioBlks rpc uuid d s PageSize PageToken = (s', Inr resp)"
  from ListVirtioBlks_shape [OF this]
  obtain s1 result where c: "Call_controllers rpc s ''vhost_get_controllers'' NoParams = (s1, Inr result)"
    and a: "\<forall>b \<in> set (VirtioBlks resp). \<exists>r \<in> set result. b = shape r" by blast
  have "\<forall>b \<in> set (VirtioBlks resp).
              PcieId b = Some \<lparr>PhysicalFunction = 1, VirtualFunction = 0\<rparr>
              \<and> VolumeId b = Some \<lparr>Value = ''TBD''\<rparr>
              \<and> (\<exists>r \<in> set result. Id' b = Some \<lparr>Value = Ctrlr r\<rparr>)"
  proof
    fix b assume "b \<in> set (VirtioBlks resp)"
    with a obtain r where r: "r \<in> set result" "b = shape r" by blast
    from r(2) have "PcieId b = Some \<lparr>PhysicalFunction = 1, VirtualFunction = 0\<rparr>"
      and "VolumeId b = Some \<lparr>Value = ''TBD''\<rparr>"
      and "Id' b = Some \<lparr>Value = Ctrlr r\<rparr>" by (simp_all add: shape_def)
    with r(1) show "PcieId b = Some \<lparr>PhysicalFunction = 1, VirtualFunction = 0\<rparr>
              \<and> VolumeId b = Some \<lparr>Value = ''TBD''\<rparr>
              \<and> (\<exists>r \<in> set result. Id' b = Some \<lparr>Value = Ctrlr r\<rparr>)" by blast
  qed
  with c show "\<exists>result. snd (Call_controllers rpc s ''vhost_get_controllers'' NoParams) = Inr result
         \<and> (\<forall>b \<in> set (VirtioBlks resp).
              PcieId b = Some \<lparr>PhysicalFunction = 1, VirtualFunction = 0\<rparr>
              \<and> VolumeId b = Some \<lparr>Value = ''TBD''\<rparr>
              \<and> (\<exists>r \<in> set result. Id' b = Some \<lparr>Value = Ctrlr r\<rparr>))"
    by auto
next
  assume g: "GetVirtioBlk rpc s Name = (s'', Inr blk)"
  from GetVirtioBlk_shape [OF g] obtain s1 r where
    c: "Call_controllers rpc s ''vhost_get_controllers'' (VhostGetControllersParams Name) = (s1, Inr [r])"
    and b: "blk = shape r" by blast
  from b show "PcieId blk = Some \<lparr>PhysicalFunction = 1, VirtualFunction = 0\<rparr>"
    by (simp add: shape_def)
  from b show "VolumeId blk = Some \<lparr>Value = ''TBD''\<rparr>" by (simp add: shape_def)
  from b c show "\<exists>r. snd (Call_controllers rpc s ''vhost_get_controllers''
                     (VhostGetControllersParams Name)) = Inr [r]
             \<and> Id' blk = Some \<lparr>Value = Ctrlr r\<rparr>"
    by (auto simp: shape_def)
qed

theorem List_Get_placeholders_witness:
  "snd (ListVirtioBlks engine_three ''tok'' 50 server2 0 []) =
     Inr \<lparr>VirtioBlks = [shape \<lparr>Ctrlr = ''VblkEmu0pf0''\<rparr>, shape \<lparr>Ctrlr = ''VblkEmu0pf2''\<rparr>,
            shape \<lparr>Ctrlr = ''VblkEmu0pf3''\<rparr>], NextPageToken = []\<rparr>
   \<and> map PcieId [shape \<lparr>Ctrlr = ''VblkEmu0pf0''\<rparr>, shape \<lparr>Ctrlr = ''VblkEmu0pf2''\<rparr>,
            shape \<lparr>Ctrlr = ''VblkEmu0pf3''\<rparr>] =
         replicate 3 (Some \<lparr>PhysicalFunction = 1, VirtualFunction = 0\<rparr>)
   \<and> map VolumeId [shape \<lparr>Ctrlr = ''VblkEmu0pf0''\<rparr>, shape \<lparr>Ctrlr = ''VblkEmu0pf2''\<rparr>,
            shape \<lparr>Ctrlr = ''VblkEmu0pf3''\<rparr>] =
         replicate 3 (Some \<lparr>Value = ''TBD''\<rparr>)
   \<and> snd (GetVirtioBlk engine_one server2 ''virtio-blk-42'') = Inr (shape \<lparr>Ctrlr = ''VblkEmu0pf2''\<rparr>)
   \<and> PcieId (shape \<lparr>Ctrlr = ''VblkEmu0pf2''\<rparr>) = Some \<lparr>PhysicalFunction = 1, VirtualFunction = 0\<rparr>
   \<and> VolumeId (shape \<lparr>Ctrlr = ''VblkEmu0pf2''\<rparr>) = Some \<lparr>Value = ''TBD''\<rparr>
   \<and> Id' (shape \<lparr>Ctrlr = ''VblkEmu0pf2''\<rparr>) = Some \<lparr>Value = ''VblkEmu0pf2''\<rparr>
   \<and> lookup server2 ''virtio-blk-42'' = Some blk42
   \<and> PcieId blk42 = Some \<lparr>PhysicalFunction = 42, VirtualFunction = 0\<rparr>"
proof -
  let ?l = "server2\<lparr>calls := [(''vhost_get_controllers'', NoParams)]\<rparr>"
  let ?page = "[shape \<lparr>Ctrlr = ''VblkEmu0pf0''\<rparr>, shape \<lparr>Ctrlr = ''VblkEmu0pf2''\<rparr>,
       shape \<lparr>Ctrlr = ''VblkEmu0pf3''\<rparr>]"
  let ?resp = "\<lparr>VirtioBlks = ?page, NextPageToken = []\<rparr>"
  let ?g = "server2\<lparr>calls := [(''vhost_get_controllers'',
       VhostGetControllersParams ''virtio-blk-42'')]\<rparr>"
  let ?blk = "shape \<lparr>Ctrlr = ''VblkEmu0pf2''\<rparr>"
  have l: "ListVirtioBlks engine_three ''tok'' 50 server2 0 [] = (?l, Inr ?resp)"
    by (simp add: ListVirtioBlks_def ExtractPagination_def Call_controllers_def Call_def
        engine_three_def LimitPagination_def slice_def server2_def)
  have g: "GetVirtioBlk engine_one server2 ''virtio-blk-42'' = (?g, Inr ?blk)"
    by (simp add: GetVirtioBlk_def Call_controllers_def Call_def engine_one_def server2_def)
  from List_Get_placeholders
    [of engine_three "''tok''" 50 server2 0 "[]" ?l ?resp "''virtio-blk-42''" ?g ?blk] l
  have "\<exists>result. snd (Call_controllers engine_three server2 ''vhost_get_controllers'' NoParams)
           = Inr result
         \<and> (\<forall>b \<in> set (VirtioBlks ?resp).
              PcieId b = Some \<lparr>PhysicalFunction = 1, VirtualFunction = 0\<rparr>
              \<and> VolumeId b = Some \<lparr>Value = ''TBD''\<rparr>
              \<and> (\<exists>r \<in> set result. Id' b = Some \<lparr>Value = Ctrlr r\<rparr>))"
    by (rule conjunct1 [THEN mp])
  then have 1: "\<forall>b \<in> set ?page.
          PcieId b = Some \<lparr>PhysicalFunction = 1, VirtualFunction = 0\<rparr>
          \<and> VolumeId b = Some \<lparr>Value = ''TBD''\<rparr>"
    by auto
  from List_Get_placeholders
    [of engine_one _ _ server2 _ _ _ _ "''virtio-blk-42''" ?g ?blk] g
  have 2: "PcieId ?blk = Some \<lparr>PhysicalFunction = 1, VirtualFunction = 0\<rparr>
      \<and> VolumeId ?blk = Some \<lparr>Value = ''TBD''\<rparr>
      \<and> (\<exists>r. snd (Call_controllers engine_one server2 ''vhost_get_controllers''
                     (VhostGetControllersParams ''virtio-blk-42'')) = Inr [r]
             \<and> Id' ?blk = Some \<lparr>Value = Ctrlr r\<rparr>)"
    by (rule conjunct2 [THEN mp])
  have 4: "Id' ?blk = Some \<lparr>Value = ''VblkEmu0pf2''\<rparr>" by (simp add: shape_def)
  have 5: "lookup server2 ''virtio-blk-42'' = Some blk42"
    by (simp add: lookup_def deref_def content_def key_at_def endpoint_at_def server2_def
        obj42_def blk42_def)
  have 6: "PcieId blk42 = Some \<lparr>PhysicalFunction = 42, VirtualFunction = 0\<rparr>"
    by (simp add: blk42_def)
  from 2 have pa: "PcieId ?blk = Some \<lparr>PhysicalFunction = 1, VirtualFunction = 0\<rparr>"
    and pb: "VolumeId ?blk = Some \<lparr>Value = ''TBD''\<rparr>" by simp_all
  from l have l': "snd (ListVirtioBlks engine_three ''tok'' 50 server2 0 []) = Inr ?resp" by simp
  from g have g': "snd (GetVirtioBlk engine_one server2 ''virtio-blk-42'') = Inr ?blk" by simp
  from 1 have m1: "map PcieId ?page = replicate 3 (Some \<lparr>PhysicalFunction = 1, VirtualFunction = 0\<rparr>)"
    and m2: "map VolumeId ?page = replicate 3 (Some \<lparr>Value = ''TBD''\<rparr>)"
    by (simp_all add: numeral_3_eq_3)
  from l' m1 m2 g' pa pb 4 5 6 show ?thesis by (intro conjI)
qed

subsection \<open>Listener address resolver\<close>

lemma dropWhile_no_colon:
  "CHR '':'' \<notin> set s \<Longrightarrow> dropWhile (\<lambda>c. c \<noteq> CHR '':'') (rev s) = []"
  by (induction s) auto

lemma SplitHostPort_no_colon: "CHR '':'' \<notin> set s \<Longrightarrow> SplitHostPort s = None"
  by (simp add: SplitHostPort_def dropWhile_no_colon Let_def)

lemma number_chars: "number val base acc w = Some n \<Longrightarrow> c \<in> set w \<Longrightarrow> val c \<noteq> None"
  by (induction w arbitrary: acc) (auto split: option.splits)

lemma octet_chars: "octet w = Some n \<Longrightarrow> c \<in> set w \<Longrightarrow> digit_val c \<noteq> None"
  by (auto simp: octet_def split: if_splits option.splits dest: number_chars)

lemma hextet_chars: "hextet w = Some n \<Longrightarrow> c \<in> set w \<Longrightarrow> hex_val c \<noteq> None"
  by (auto simp: hextet_def split: if_splits dest: number_chars)

lemma digit_is_hex: "digit_val c \<noteq> None \<Longrightarrow> hex_val c \<noteq> None"
  by (auto simp: digit_val_def hex_val_def Let_def split: if_splits)

lemma split_on_covers:
  "x \<in> set xs \<Longrightarrow> x \<noteq> c \<Longrightarrow> \<exists>w \<in> set (split_on c xs). x \<in> set w"
  by (induction xs) (auto split: list.splits)

lemma those_all: "those ys = Some r \<Longrightarrow> y \<in> set ys \<Longrightarrow> y \<noteq> None"
  by (induction ys arbitrary: r) (auto split: option.splits)

lemma those_map_all: "those (map f ws) = Some r \<Longrightarrow> w \<in> set ws \<Longrightarrow> f w \<noteq> None"
  using those_all [of "map f ws" r "f w"] by simp

lemma split_double_colon_covers:
  "split_double_colon xs = Some (l, r) \<Longrightarrow> x \<in> set xs \<Longrightarrow>
     x \<in> set l \<or> x \<in> set r \<or> x = CHR '':''"
  by (induction xs arbitrary: l rule: split_double_colon.induct) (auto split: if_splits)

lemma hextets_chars:
  assumes "hextets w = Some gs" and "c \<in> set w" and "c \<noteq> CHR '':''"
  shows "hex_val c \<noteq> None"
proof -
  from assms(2) have "w \<noteq> []" by auto
  with assms(1) have t: "those (map hextet (split_on CHR '':'' w)) = Some gs"
    by (simp add: hextets_def)
  from split_on_covers [OF assms(2,3)] obtain f where f: "f \<in> set (split_on CHR '':'' w)" "c \<in> set f"
    by blast
  from those_map_all [OF t f(1)] obtain n where "hextet f = Some n" by auto
  from hextet_chars [OF this f(2)] show ?thesis .
qed

lemma ParseIPv4_chars:
  assumes "ParseIPv4 host = Some ip" and "c \<in> set host" and "c \<noteq> CHR ''.''"
  shows "digit_val c \<noteq> None"
proof -
  from assms(1) obtain os where t: "those (map octet (split_on CHR ''.'' host)) = Some os"
    by (auto simp: ParseIPv4_def split: option.splits)
  from split_on_covers [OF assms(2,3)] obtain f where f: "f \<in> set (split_on CHR ''.'' host)" "c \<in> set f"
    by blast
  from those_map_all [OF t f(1)] obtain n where "octet f = Some n" by auto
  from octet_chars [OF this f(2)] show ?thesis .
qed

lemma ParseIPv6_chars:
  assumes "ParseIPv6 host = Some ip" and "c \<in> set host" and "c \<noteq> CHR '':''"
  shows "hex_val c \<noteq> None"
proof (cases "split_double_colon host")
  case None
  with assms(1) obtain gs where t: "those (map hextet (split_on CHR '':'' host)) = Some gs"
    by (auto simp: ParseIPv6_def split: option.splits)
  from split_on_covers [OF assms(2,3)] obtain f where f: "f \<in> set (split_on CHR '':'' host)" "c \<in> set f"
    by blast
  from those_map_all [OF t f(1)] obtain n where "hextet f = Some n" by auto
  from hextet_chars [OF this f(2)] show ?thesis .
next
  case (Some lr)
  obtain l r where lr: "lr = (l, r)" by (cases lr)
  with Some assms(1) obtain ls rs where h: "hextets l = Some ls" "hextets r = Some rs"
    by (auto simp: ParseIPv6_def split: option.splits if_splits)
  from split_double_colon_covers [of host l r c] Some lr assms(2,3)
  have "c \<in> set l \<or> c \<in> set r" by simp
  then show ?thesis using hextets_chars h assms(3) by blast
qed

lemma NewTCPSubsystemListener_non_ip:
  assumes "SplitHostPort s = Some (host, port)" and "c \<in> set host"
    and "hex_val c = None" and "c \<noteq> CHR ''.''" and "c \<noteq> CHR '':''"
  shows "NewTCPSubsystemListener s = Inl Panic"
proof -
  have "ParseIPv4 host = None"
    using ParseIPv4_chars [of host _ c] digit_is_hex [of c] assms by (cases "ParseIPv4 host") auto
  moreover have "ParseIPv6 host = None"
    using ParseIPv6_chars [of host _ c] assms by (cases "ParseIPv6 host") auto
  ultimately show ?thesis using assms(1) by (simp add: NewTCPSubsystemListener_def)
qed

lemma NewTCPSubsystemListener_error: "NewTCPSubsystemListener s = Inl e \<Longrightarrow> e = Panic"
  by (auto simp: NewTCPSubsystemListener_def split: option.splits)

text \<open>
  C8. The resolver maps "10.10.10.10:12345" to an IPv4 TCP descriptor with that host
  and port 12345, and a bracketed IPv6 host with a port to an IPv6 TCP descriptor. The
  empty string, "10.10.10.10" and "wrong:12345" end in a panic; so does every string
  without a colon (no port) and every string whose host holds a character that is
  neither a hexadecimal digit nor a dot nor a colon. The resolver never answers with a
  typed error: it returns a descriptor or panics.
\<close>

theorem NewTCPSubsystemListener_resolves:
  "NewTCPSubsystemListener ''10.10.10.10:12345'' =
     Inr \<lparr>listenAddr = IPv4 10 10 10 10, listenPort = ''12345'',
          protocol = ipv4NvmeTCPProtocol\<rparr>
   \<and> NewTCPSubsystemListener ''[2002:db0:8833::8a8a:330:7337]:54321'' =
     Inr \<lparr>listenAddr = IPv6 [0x2002, 0xdb0, 0x8833, 0, 0, 0x8a8a, 0x330, 0x7337],
          listenPort = ''54321'', protocol = ipv6NvmeTCPProtocol\<rparr>
   \<and> NewTCPSubsystemListener [] = Inl Panic
   \<and> NewTCPSubsystemListener ''10.10.10.10'' = Inl Panic
   \<and> NewTCPSubsystemListener ''wrong:12345'' = Inl Panic
   \<and> (CHR '':'' \<notin> set s \<longrightarrow> NewTCPSubsystemListener s = Inl Panic)
   \<and> (SplitHostPort s = Some (host, port) \<and> c \<in> set host \<and> hex_val c = None
        \<and> c \<noteq> CHR ''.'' \<and> c \<noteq> CHR '':'' \<longrightarrow> NewTCPSubsystemListener s = Inl Panic)
   \<and> ((\<exists>l. NewTCPSubsystemListener s = Inr l) \<or> NewTCPSubsystemListener s = Inl Panic)"
proof (intro conjI impI)
  show "NewTCPSubsystemListener ''10.10.10.10:12345'' =
     Inr \<lparr>listenAddr = IPv4 10 10 10 10, listenPort = ''12345'',
          protocol = ipv4NvmeTCPProtocol\<rparr>"
    by code_simp
  show "NewTCPSubsystemListener ''[2002:db0:8833::8a8a:330:7337]:54321'' =
     Inr \<lparr>listenAddr = IPv6 [0x2002, 0xdb0, 0x8833, 0, 0, 0x8a8a, 0x330, 0x7337],
          listenPort = ''54321'', protocol = ipv6NvmeTCPProtocol\<rparr>"
    by code_simp
  show "NewTCPSubsystemListener [] = Inl Panic" by code_simp
  show "NewTCPSubsystemListener ''10.10.10.10'' = Inl Panic" by code_simp
  show "NewTCPSubsystemListener ''wrong:12345'' = Inl Panic" by code_simp
  show "NewTCPSubsystemListener s = Inl Panic" if "CHR '':'' \<notin> set s"
    using that by (simp add: NewTCPSubsystemListener_def SplitHostPort_no_colon)
  show "NewTCPSubsystemListener s = Inl Panic"
    if "SplitHostPort s = Some (host, port) \<and> c \<in> set host \<and> hex_val c = None
        \<and> c \<noteq> CHR ''.'' \<and> c \<noteq> CHR '':''"
    using that NewTCPSubsystemListener_non_ip by blast
  show "(\<exists>l. NewTCPSubsystemListener s = Inr l) \<or> NewTCPSubsystemListener s = Inl Panic"
    using NewTCPSubsystemListener_error [of s] by (cases "NewTCPSubsystemListener s") auto
qed

theorem NewTCPSubsystemListener_resolves_witness:
  "CHR '':'' \<notin> set ''some string which is not ip address''
   \<and> NewTCPSubsystemListener ''some string which is not ip address'' = Inl Panic
   \<and> SplitHostPort ''wrong:12345'' = Some (''wrong'', ''12345'')
   \<and> CHR ''w'' \<in> set ''wrong'' \<and> hex_val CHR ''w'' = None
   \<and> NewTCPSubsystemListener ''wrong:12345'' = Inl Panic"
proof -
  have 1: "CHR '':'' \<notin> set ''some string which is not ip address''" by simp
  have 2: "SplitHostPort ''wrong:12345'' = Some (''wrong'', ''12345'')" by code_simp
  have 3: "hex_val CHR ''w'' = None" by code_simp
  from 1 NewTCPSubsystemListener_resolves
    [of "''some string which is not ip address''" "''wrong''" "''12345''" "CHR ''w''"]
  have 4: "NewTCPSubsystemListener ''some string which is not ip address'' = Inl Panic"
    by blast
  from NewTCPSubsystemListener_resolves [of "''wrong:12345''" "''wrong''" "''12345''" "CHR ''w''"]
  have 5: "NewTCPSubsystemListener ''wrong:12345'' = Inl Panic" by blast
  show ?thesis using 1 2 3 4 5 by simp
qed


end
